theory Spec2Isabelle
  imports Complex_Main "HOL-Library.AList"
begin

section \<open>Python values and exceptions\<close>

text \<open>
  The exceptions that the modelled code can raise or see. \<open>ClientConnectionError\<close>
  stands for \<^verbatim>\<open>aiohttp.ClientConnectionError\<close> and its subclasses, the only class that
  \<^verbatim>\<open>get_avatar_url\<close> catches; \<open>OtherClientError\<close> for every other exception of the
  HTTP client (a timeout, a payload error, a content type that is not JSON).
\<close>

datatype error =
    ClientConnectionError
  | OtherClientError
  | JSONDecodeError
  | KeyError
  | TypeError
  | AttributeError
  | ValueError
  | OverflowError
  | RuntimeError
  | QueueFull
  | WebSocketClosedError

text \<open>
  A Python float by its exact value; \<^verbatim>\<open>json.loads\<close> also produces the three special
  values.
\<close>

datatype pyfloat = Finite real | PosInf | NegInf | NaN

text \<open>
  What \<^verbatim>\<open>json.loads\<close> and \<^verbatim>\<open>r.json()\<close> return, and what \<^verbatim>\<open>json.dumps\<close> takes. A \<^verbatim>\<open>dict\<close>
  is an association list in insertion order; its keys are distinct in Python, and the
  lookup below reads the first entry of a key.
\<close>

datatype json =
    JNull
  | JBool bool
  | JInt int
  | JFloat pyfloat
  | JString string
  | JArray "json list"
  | JObject "(string \<times> json) list"

text \<open>
  \<^verbatim>\<open>v[key]\<close> with a string key: \<^verbatim>\<open>KeyError\<close> on a dict without the key,
  \<^verbatim>\<open>TypeError\<close> on every value that is not a dict (a list and a string take integer
  indices only; the others are not subscriptable).
\<close>

fun getitem :: "json \<Rightarrow> string \<Rightarrow> error + json" where
  "getitem (JObject kvs) key =
     (case map_of kvs key of None \<Rightarrow> Inl KeyError | Some v \<Rightarrow> Inr v)"
| "getitem JNull key = Inl TypeError"
| "getitem (JBool b) key = Inl TypeError"
| "getitem (JInt n) key = Inl TypeError"
| "getitem (JFloat x) key = Inl TypeError"
| "getitem (JString s) key = Inl TypeError"
| "getitem (JArray xs) key = Inl TypeError"

text \<open>\<^verbatim>\<open>s.endswith(suffix)\<close>.\<close>

definition endswith :: "string \<Rightarrow> string \<Rightarrow> bool" where
  "endswith s suffix =
     (length suffix \<le> length s \<and> drop (length s - length suffix) s = suffix)"

section \<open>The avatar resolver\<close>

text \<open>
  The module-level state of \<^verbatim>\<open>views/chat.py\<close>. Times are \<^verbatim>\<open>datetime\<close> values counted
  in microseconds, the resolution of \<^verbatim>\<open>datetime\<close>: \<^verbatim>\<open>total_seconds() < 0.2\<close> is
  \<open>< 200000\<close> and \<^verbatim>\<open>total_seconds() < 3 * 60 + 3\<close> is \<open>< 183000000\<close>. The cache is
  a \<^verbatim>\<open>dict\<close>, which keeps its keys in insertion order; the queue is
  \<^verbatim>\<open>asyncio.Queue(15)\<close>, oldest first.
\<close>

definition DEFAULT_AVATAR_URL :: string where
  "DEFAULT_AVATAR_URL = ''https://static.hdslb.com/images/member/noface.gif''"

record avatar_state =
  avatar_url_cache :: "(int \<times> string) list"
  last_fetch_avatar_time :: int
  last_avatar_failed_time :: "int option"
  uids_to_fetch_avatar :: "int list"

text \<open>\<^verbatim>\<open>Queue.put_nowait\<close> on a queue of \<^verbatim>\<open>maxsize\<close> 15.\<close>

definition put_nowait :: "int list \<Rightarrow> int \<Rightarrow> error + int list" where
  "put_nowait q item = (if 15 \<le> length q then Inl QueueFull else Inr (q @ [item]))"

text \<open>
  \<^verbatim>\<open>get_avatar_url\<close> up to its only suspension point, the HTTP request: it either
  returns (cache hit, throttled, backing off) or has issued the request, with
  \<^verbatim>\<open>_last_fetch_avatar_time\<close> already written.
\<close>

datatype start_result = Returned string | Requested

definition get_avatar_url_start ::
    "int \<Rightarrow> int \<Rightarrow> avatar_state \<Rightarrow> start_result \<times> avatar_state" where
  "get_avatar_url_start user_id cur_time s =
     (case map_of (avatar_url_cache s) user_id of
        Some url \<Rightarrow> (Returned url, s)
      | None \<Rightarrow>
          if cur_time - last_fetch_avatar_time s < 200000 then
            (Returned DEFAULT_AVATAR_URL,
             case put_nowait (uids_to_fetch_avatar s) user_id of
               Inl e \<Rightarrow> s
             | Inr q \<Rightarrow> s\<lparr>uids_to_fetch_avatar := q\<rparr>)
          else
            (case last_avatar_failed_time s of
               Some failed \<Rightarrow>
                 if cur_time - failed < 183000000 then (Returned DEFAULT_AVATAR_URL, s)
                 else (Requested,
                       s\<lparr>last_avatar_failed_time := None, last_fetch_avatar_time := cur_time\<rparr>)
             | None \<Rightarrow> (Requested, s\<lparr>last_fetch_avatar_time := cur_time\<rparr>)))"

text \<open>
  What the HTTP request comes back with: an exception out of \<^verbatim>\<open>_http_session.get\<close>, or
  a response with its status and what \<^verbatim>\<open>await r.json()\<close> gives (an exception or the
  decoded body).
\<close>

datatype fetch_outcome = Raises error | Response int "error + json"

text \<open>
  \<^verbatim>\<open>url = data['data']['face']\<close>, then the thumbnail suffix unless the URL ends with
  \<^verbatim>\<open>noface.gif\<close>. A face that is not a string has no \<^verbatim>\<open>endswith\<close>.
\<close>

definition face_url :: "json \<Rightarrow> error + string" where
  "face_url data =
     (case getitem data ''data'' of
        Inl e \<Rightarrow> Inl e
      | Inr d \<Rightarrow>
          (case getitem d ''face'' of
             Inl e \<Rightarrow> Inl e
           | Inr (JString url) \<Rightarrow>
               Inr (if \<not> endswith url ''noface.gif'' then url @ ''@48w_48h'' else url)
           | Inr other \<Rightarrow> Inl AttributeError))"

text \<open>
  The eviction loop \<^verbatim>\<open>for _, key in zip(range(100), _avatar_url_cache): del ...\<close>.
  \<^verbatim>\<open>zip\<close> asks \<^verbatim>\<open>range\<close> first and stops when it is exhausted; then it asks the dict
  iterator, which raises \<^verbatim>\<open>RuntimeError\<close> (dictionary changed size during iteration)
  when the dict no longer has the size it had when the iterator was made, and
  otherwise yields the next key. \<open>used\<close> is that size and \<open>keys\<close> the keys the iterator
  has not yet yielded. The cache is returned in both cases: a deletion made before the
  exception stays.
\<close>

fun evict_loop ::
    "nat \<Rightarrow> nat \<Rightarrow> int list \<Rightarrow> (int \<times> string) list \<Rightarrow> error option \<times> (int \<times> string) list" where
  "evict_loop 0 used keys cache = (None, cache)"
| "evict_loop (Suc n) used keys cache =
     (if length cache \<noteq> used then (Some RuntimeError, cache)
      else case keys of
             [] \<Rightarrow> (None, cache)
           | key # rest \<Rightarrow> evict_loop n used rest (AList.delete key cache))"

text \<open>
  \<^verbatim>\<open>get_avatar_url\<close> from the answer of the HTTP request to its end, on the state as it
  is when the coroutine resumes. \<open>cur_time\<close> is the local variable read before the
  request.
\<close>

definition get_avatar_url_resume ::
    "int \<Rightarrow> int \<Rightarrow> fetch_outcome \<Rightarrow> avatar_state \<Rightarrow> (error + string) \<times> avatar_state" where
  "get_avatar_url_resume user_id cur_time outcome s =
     (case outcome of
        Raises e \<Rightarrow>
          (if e = ClientConnectionError then Inr DEFAULT_AVATAR_URL else Inl e, s)
      | Response status body \<Rightarrow>
          if status \<noteq> 200 then
            (Inr DEFAULT_AVATAR_URL, s\<lparr>last_avatar_failed_time := Some cur_time\<rparr>)
          else
            (case body of
               Inl e \<Rightarrow>
                 (if e = ClientConnectionError then Inr DEFAULT_AVATAR_URL else Inl e, s)
             | Inr data \<Rightarrow>
                 (case face_url data of
                    Inl e \<Rightarrow> (Inl e, s)
                  | Inr url \<Rightarrow>
                      let cache = AList.update user_id url (avatar_url_cache s) in
                      if 50000 < length cache then
                        (case evict_loop 100 (length cache) (map fst cache) cache of
                           (Some e, cache') \<Rightarrow> (Inl e, s\<lparr>avatar_url_cache := cache'\<rparr>)
                         | (None, cache') \<Rightarrow> (Inr url, s\<lparr>avatar_url_cache := cache'\<rparr>))
                      else (Inr url, s\<lparr>avatar_url_cache := cache\<rparr>))))"

text \<open>
  A whole call with nothing else running while it waits for the answer: \<open>outcome\<close> is
  what the HTTP request would come back with, used only if the request is made.
\<close>

definition get_avatar_url ::
    "int \<Rightarrow> int \<Rightarrow> fetch_outcome \<Rightarrow> avatar_state \<Rightarrow> (error + string) \<times> avatar_state" where
  "get_avatar_url user_id cur_time outcome s =
     (case get_avatar_url_start user_id cur_time s of
        (Returned url, s') \<Rightarrow> (Inr url, s')
      | (Requested, s') \<Rightarrow> get_avatar_url_resume user_id cur_time outcome s')"

text \<open>
  Calls made one after the other, each finished before the next begins: for each the
  user id, the time it reads and what its HTTP request would come back with. The
  results are in the order of the calls.
\<close>

fun resolve_all ::
    "(int \<times> int \<times> fetch_outcome) list \<Rightarrow> avatar_state \<Rightarrow> (error + string) list \<times> avatar_state" where
  "resolve_all [] s = ([], s)"
| "resolve_all ((user_id, cur_time, outcome) # rest) s =
     (case get_avatar_url user_id cur_time outcome s of
        (res, s') \<Rightarrow>
          (case resolve_all rest s' of
             (ress, s'') \<Rightarrow> (res # ress, s'')))"

text \<open>
  One iteration of \<^verbatim>\<open>_fetch_avatar_loop\<close>. \<^verbatim>\<open>Queue.get\<close> waits while the queue is
  empty. Otherwise the head is taken; an id that is in the cache is skipped; for any
  other the loop calls \<^verbatim>\<open>asyncio.sleep\<close> with \<^verbatim>\<open>0.4\<close> seconds minus the time since
  \<^verbatim>\<open>_last_fetch_avatar_time\<close> (\<open>now\<close> is the clock read there) and then hands
  \<^verbatim>\<open>get_avatar_url(user_id)\<close> to \<^verbatim>\<open>asyncio.ensure_future\<close>, which schedules it and
  returns at once.
\<close>

datatype loop_step = Waiting | Skipped int | SleepThenSpawn int int

definition fetch_avatar_loop_step :: "int \<Rightarrow> avatar_state \<Rightarrow> loop_step \<times> avatar_state" where
  "fetch_avatar_loop_step now s =
     (case uids_to_fetch_avatar s of
        [] \<Rightarrow> (Waiting, s)
      | user_id # rest \<Rightarrow>
          let s' = s\<lparr>uids_to_fetch_avatar := rest\<rparr> in
          if map_of (avatar_url_cache s') user_id \<noteq> None then (Skipped user_id, s')
          else (SleepThenSpawn (400000 - (now - last_fetch_avatar_time s')) user_id, s'))"

text \<open>How long \<^verbatim>\<open>asyncio.sleep(delay)\<close> sleeps: not at all when \<open>delay \<le> 0\<close>.\<close>

definition sleep_duration :: "int \<Rightarrow> int" where
  "sleep_duration delay = (if delay \<le> 0 then 0 else delay)"

section \<open>Rooms, subscribers and the effects of a broadcast\<close>

text \<open>\<^verbatim>\<open>class Command(enum.IntEnum)\<close> and the integer each member is.\<close>

datatype command = JOIN_ROOM | ADD_TEXT | ADD_GIFT | ADD_MEMBER

fun command_value :: "command \<Rightarrow> int" where
  "command_value JOIN_ROOM = 0"
| "command_value ADD_TEXT = 1"
| "command_value ADD_GIFT = 2"
| "command_value ADD_MEMBER = 3"

text \<open>
  A subscriber is a \<^verbatim>\<open>ChatHandler\<close> object, known by its identity. The text that
  \<^verbatim>\<open>json.dumps\<close> makes of a value is written \<open>Encoded\<close> of that value. What the code
  does to its collaborators is kept as a trace, oldest first: a \<^verbatim>\<open>Room\<close> constructed,
  the upstream client of a room started, stopped and closed, a value encoded by
  \<^verbatim>\<open>json.dumps\<close>, a text handed to \<^verbatim>\<open>write_message\<close> of a subscriber and accepted.
  \<^verbatim>\<open>write_message\<close> of tornado raises \<^verbatim>\<open>WebSocketClosedError\<close> on a connection that is
  closed or closing; \<open>shut\<close> below is the set of subscribers whose connection is in
  that state when the code writes.
\<close>

type_synonym client = nat

datatype body = Encoded json

datatype event =
    Created int
  | Started int
  | Stopped int
  | Closed int
  | Dumped json
  | Written client body

text \<open>
  Modelled from the spec: the upstream client class \<^verbatim>\<open>blivedm.BLiveClient\<close>, which
  \<^verbatim>\<open>Room\<close> extends, is not in the sources. Of it a room has the room id it was made
  for, the owner's user id once the client has learned it (it is not known at
  creation) and whether the client is running; \<^verbatim>\<open>Room.__init__\<close> adds the subscribers,
  in the order they joined. A new client is not running, and \<^verbatim>\<open>start\<close> makes it
  running.
\<close>

record room =
  room_id :: int
  room_owner_uid :: "int option"
  is_running :: bool
  clients :: "client list"

definition Room :: "int \<Rightarrow> room" where
  "Room rid = \<lparr>room_id = rid, room_owner_uid = None, is_running = False, clients = []\<rparr>"

definition start :: "room \<Rightarrow> room" where
  "start r = r\<lparr>is_running := True\<rparr>"

text \<open>
  \<^verbatim>\<open>Room.stop_and_close\<close>, on the trace and on the list of rooms whose \<^verbatim>\<open>close\<close> is
  scheduled and has not run yet. A running client is stopped at once, and its
  \<^verbatim>\<open>close\<close> is scheduled from the callback of the stop; for a client that is not
  running \<^verbatim>\<open>close\<close> is handed to \<^verbatim>\<open>asyncio.ensure_future\<close>. In both cases \<^verbatim>\<open>close\<close>
  runs in a later turn of the event loop, after \<^verbatim>\<open>stop_and_close\<close> and its caller
  have returned.
\<close>

definition stop_and_close :: "room \<Rightarrow> event list \<Rightarrow> int list \<Rightarrow> event list \<times> int list" where
  "stop_and_close r tr pending =
     (if is_running r then (tr @ [Stopped (room.room_id r)], pending @ [room.room_id r])
      else (tr, pending @ [room.room_id r]))"

text \<open>
  The loop \<^verbatim>\<open>for client in self.clients: client.write_message(body)\<close>. The exception
  of a write is not handled: it ends the loop, with the subscribers after that one
  not written to.
\<close>

fun write_all ::
    "client set \<Rightarrow> client list \<Rightarrow> body \<Rightarrow> event list \<Rightarrow> error option \<times> event list" where
  "write_all shut [] b tr = (None, tr)"
| "write_all shut (c # cs) b tr =
     (if c \<in> shut then (Some WebSocketClosedError, tr)
      else write_all shut cs b (tr @ [Written c b]))"

text \<open>\<^verbatim>\<open>Room.send_message\<close>: the exception that leaves it, if any, and the trace.\<close>

definition send_message ::
    "client set \<Rightarrow> command \<Rightarrow> json \<Rightarrow> room \<Rightarrow> event list \<Rightarrow> error option \<times> event list" where
  "send_message shut cmd data r tr =
     (let payload = JObject [(''cmd'', JInt (command_value cmd)), (''data'', data)];
          b = Encoded payload
      in write_all shut (clients r) b (tr @ [Dumped payload]))"

text \<open>
  Modelled from the spec: the class \<^verbatim>\<open>blivedm.DanmakuMessage\<close> is not in the sources.
  These are the fields that \<^verbatim>\<open>__on_receive_danmaku\<close> reads, under the names it reads
  them by. The flags are integers, tested for truth as Python does.
\<close>

record danmaku =
  uid :: int
  admin :: int
  privilege_type :: int
  timestamp :: int
  uname :: string
  msg :: string
  msg_type :: int
  user_level :: int
  urank :: int
  mobile_verify :: int
  room_id :: int
  medal_level :: int

text \<open>The \<^verbatim>\<open>if\<close> chain of \<^verbatim>\<open>__on_receive_danmaku\<close> that sets \<^verbatim>\<open>author_type\<close>.\<close>

definition author_type :: "room \<Rightarrow> danmaku \<Rightarrow> int" where
  "author_type r d =
     (if Some (uid d) = room_owner_uid r then 3
      else if admin d \<noteq> 0 then 2
      else if privilege_type d \<noteq> 0 then 1
      else 0)"

text \<open>The dict that \<^verbatim>\<open>__on_receive_danmaku\<close> broadcasts, given the avatar URL.\<close>

definition text_data :: "room \<Rightarrow> danmaku \<Rightarrow> string \<Rightarrow> json" where
  "text_data r d avatar_url =
     JObject
       [(''avatarUrl'', JString avatar_url),
        (''timestamp'', JInt (timestamp d)),
        (''authorName'', JString (uname d)),
        (''authorType'', JInt (author_type r d)),
        (''content'', JString (msg d)),
        (''privilegeType'', JInt (privilege_type d)),
        (''isGiftDanmaku'', JBool (msg_type d \<noteq> 0)),
        (''authorLevel'', JInt (user_level d)),
        (''isNewbie'', JBool (urank d < 10000)),
        (''isMobileVerified'', JBool (mobile_verify d \<noteq> 0)),
        (''medalLevel'',
           JInt (if danmaku.room_id d \<noteq> room.room_id r then 0 else medal_level d))]"

text \<open>
  \<^verbatim>\<open>__on_receive_danmaku\<close>, given what \<^verbatim>\<open>await get_avatar_url(danmaku.uid)\<close> came to:
  an exception there leaves the coroutine before anything is sent.
\<close>

definition on_receive_danmaku ::
    "client set \<Rightarrow> room \<Rightarrow> danmaku \<Rightarrow> error + string \<Rightarrow> event list
       \<Rightarrow> error option \<times> event list" where
  "on_receive_danmaku shut r d avatar tr =
     (case avatar of
        Inl e \<Rightarrow> (Some e, tr)
      | Inr avatar_url \<Rightarrow> send_message shut ADD_TEXT (text_data r d avatar_url) r tr)"

section \<open>The room manager\<close>

text \<open>
  \<^verbatim>\<open>RoomManager\<close>: the dict \<^verbatim>\<open>_rooms\<close>, and beside it the trace of effects and the
  ids of the rooms whose \<^verbatim>\<open>close\<close> is scheduled and has not run yet.
\<close>

record manager =
  rooms :: "int \<Rightarrow> room option"
  trace :: "event list"
  closing :: "int list"

definition room_manager :: manager where
  "room_manager = \<lparr>rooms = Map.empty, trace = [], closing = []\<rparr>"

text \<open>
  The event loop runs the scheduled \<^verbatim>\<open>close\<close> of a room: the upstream client is closed.
  Nothing happens for a room that has no \<^verbatim>\<open>close\<close> scheduled.
\<close>

definition run_close :: "int \<Rightarrow> manager \<Rightarrow> manager" where
  "run_close rid m =
     (if rid \<in> set (closing m)
      then m\<lparr>closing := remove1 rid (closing m), trace := trace m @ [Closed rid]\<rparr>
      else m)"

text \<open>
  \<^verbatim>\<open>RoomManager.__send_test_message\<close>. \<open>now\<close> is \<^verbatim>\<open>time.time()\<close>; text outside ASCII is
  written in UTF-8. \<^verbatim>\<open>vip_data\<close> is \<^verbatim>\<open>base_data\<close> itself; \<^verbatim>\<open>text_data\<close> and
  \<^verbatim>\<open>gift_data\<close> are dicts of their own, updated between the sends. \<open>test_messages\<close>
  lists what the seven calls of \<^verbatim>\<open>room.send_message\<close> are given, each dict as it is at
  its call; \<open>send_messages\<close> makes the calls in that order, and the exception of one
  ends the function.
\<close>

definition base_data :: "real \<Rightarrow> (string \<times> json) list" where
  "base_data now =
     [(''avatarUrl'',
         JString ''https://i0.hdslb.com/bfs/face/29b6be8aa611e70a3d3ac219cdaf5e72b604f2de.jpg@48w_48h''),
      (''timestamp'', JFloat (Finite now)),
      (''authorName'', JString ''xfgryujk'')]"

definition test_text_data :: "real \<Rightarrow> (string \<times> json) list" where
  "test_text_data now =
     base_data now @
     [(''authorType'', JInt 0),
      (''content'',
         JString [CHR 0xE6, CHR 0x88, CHR 0x91, CHR 0xE8, CHR 0x83, CHR 0xBD, CHR 0xE5, CHR 0x90,
                  CHR 0x9E, CHR 0xE4, CHR 0xB8, CHR 0x8B, CHR 0xE7, CHR 0x8E, CHR 0xBB, CHR 0xE7,
                  CHR 0x92, CHR 0x83, CHR 0xE8, CHR 0x80, CHR 0x8C, CHR 0xE4, CHR 0xB8, CHR 0x8D,
                  CHR 0xE4, CHR 0xBC, CHR 0xA4, CHR 0xE8, CHR 0xBA, CHR 0xAB, CHR 0xE4, CHR 0xBD,
                  CHR 0x93]),
      (''privilegeType'', JInt 0),
      (''isGiftDanmaku'', JBool False),
      (''authorLevel'', JInt 20),
      (''isNewbie'', JBool False),
      (''isMobileVerified'', JBool True)]"

definition test_gift_data :: "real \<Rightarrow> (string \<times> json) list" where
  "test_gift_data now =
     base_data now @
     [(''giftName'', JString [CHR 0xE7, CHR 0xA4, CHR 0xBC, CHR 0xE8, CHR 0x8A, CHR 0xB1]),
      (''giftNum'', JInt 1),
      (''totalCoin'', JInt 28000)]"

definition test_messages :: "real \<Rightarrow> (command \<times> json) list" where
  "test_messages now =
     (let text1 = test_text_data now;
          text2 =
            AList.update ''content'' (JString ''I can eat glass, it doesn't hurt me.'')
              (AList.update ''authorType'' (JInt 3)
                 (AList.update ''authorName''
                    (JString [CHR 0xE4, CHR 0xB8, CHR 0xBB, CHR 0xE6, CHR 0x92, CHR 0xAD]) text1));
          gift1 = test_gift_data now;
          gift2 =
            AList.update ''totalCoin'' (JInt 100000)
              (AList.update ''giftName''
                 (JString [CHR 0xE8, CHR 0x8A, CHR 0x82, CHR 0xE5, CHR 0xA5, CHR 0x8F, CHR 0xE9,
                           CHR 0xA3, CHR 0x8E, CHR 0xE6, CHR 0x9A, CHR 0xB4]) gift1);
          gift3 =
            AList.update ''totalCoin'' (JInt 450000)
              (AList.update ''giftName''
                 (JString [CHR 0xE6, CHR 0x91, CHR 0xA9, CHR 0xE5, CHR 0xA4, CHR 0xA9, CHR 0xE5,
                           CHR 0xA4, CHR 0xA7, CHR 0xE6, CHR 0xA5, CHR 0xBC]) gift2);
          gift4 =
            AList.update ''totalCoin'' (JInt 1245000)
              (AList.update ''giftName''
                 (JString [CHR 0xE5, CHR 0xB0, CHR 0x8F, CHR 0xE7, CHR 0x94, CHR 0xB5, CHR 0xE8,
                           CHR 0xA7, CHR 0x86, CHR 0xE9, CHR 0xA3, CHR 0x9E, CHR 0xE8, CHR 0x88,
                           CHR 0xB9]) gift3)
      in [(ADD_TEXT, JObject text1), (ADD_TEXT, JObject text2),
          (ADD_MEMBER, JObject (base_data now)),
          (ADD_GIFT, JObject gift1), (ADD_GIFT, JObject gift2),
          (ADD_GIFT, JObject gift3), (ADD_GIFT, JObject gift4)])"

fun send_messages ::
    "client set \<Rightarrow> (command \<times> json) list \<Rightarrow> room \<Rightarrow> event list \<Rightarrow> error option \<times> event list" where
  "send_messages shut [] r tr = (None, tr)"
| "send_messages shut ((cmd, data) # rest) r tr =
     (case send_message shut cmd data r tr of
        (Some e, tr') \<Rightarrow> (Some e, tr')
      | (None, tr') \<Rightarrow> send_messages shut rest r tr')"

definition send_test_message ::
    "client set \<Rightarrow> room \<Rightarrow> real \<Rightarrow> event list \<Rightarrow> error option \<times> event list" where
  "send_test_message shut r now tr = send_messages shut (test_messages now) r tr"

text \<open>
  \<^verbatim>\<open>RoomManager.add_client\<close>. \<open>debug\<close> is \<^verbatim>\<open>client.application.settings['debug']\<close>.
  The room is stored and started and the subscriber appended before the test messages
  are sent, so an exception out of those leaves all of that done.
\<close>

definition add_client ::
    "client set \<Rightarrow> bool \<Rightarrow> real \<Rightarrow> int \<Rightarrow> client \<Rightarrow> manager \<Rightarrow> error option \<times> manager" where
  "add_client shut debug now rid c m =
     (let (r, m1) =
            (case rooms m rid of
               Some r \<Rightarrow> (r, m)
             | None \<Rightarrow>
                 (start (Room rid),
                  m\<lparr>trace := trace m @ [Created rid, Started rid]\<rparr>));
          r' = r\<lparr>clients := clients r @ [c]\<rparr>;
          m2 = m1\<lparr>rooms := (rooms m1)(rid \<mapsto> r')\<rparr>
      in if debug then
           (case send_test_message shut r' now (trace m2) of
              (raised, tr) \<Rightarrow> (raised, m2\<lparr>trace := tr\<rparr>))
         else (None, m2))"

text \<open>
  \<^verbatim>\<open>RoomManager.del_client\<close>. \<^verbatim>\<open>list.remove\<close> takes out the first occurrence and
  raises \<^verbatim>\<open>ValueError\<close> when there is none; nothing has changed by then.
\<close>

definition del_client :: "int \<Rightarrow> client \<Rightarrow> manager \<Rightarrow> error option \<times> manager" where
  "del_client rid c m =
     (case rooms m rid of
        None \<Rightarrow> (None, m)
      | Some r \<Rightarrow>
          if c \<notin> set (clients r) then (Some ValueError, m)
          else
            let r' = r\<lparr>clients := remove1 c (clients r)\<rparr> in
            if clients r' = [] then
              (case stop_and_close r' (trace m) (closing m) of
                 (tr, pending) \<Rightarrow>
                   (None, m\<lparr>rooms := (rooms m)(rid := None), trace := tr, closing := pending\<rparr>))
            else (None, m\<lparr>rooms := (rooms m)(rid \<mapsto> r')\<rparr>))"

text \<open>
  A run of the manager: joins, leaves and scheduled closes in any order. A call that
  raises leaves the state as it is at the exception.
\<close>

datatype request =
    Join "client set" bool real int client
  | Leave int client
  | Close int

fun serve :: "request \<Rightarrow> manager \<Rightarrow> manager" where
  "serve (Join shut debug now rid c) m = snd (add_client shut debug now rid c m)"
| "serve (Leave rid c) m = snd (del_client rid c m)"
| "serve (Close rid) m = run_close rid m"

section \<open>The connection handler\<close>

text \<open>
  \<^verbatim>\<open>ChatHandler\<close>: the identity of the object and its \<^verbatim>\<open>room_id\<close>, \<^verbatim>\<open>None\<close> until a
  join.
\<close>

record chat_handler =
  ident :: client
  room_id :: "int option"




text \<open>\<^verbatim>\<open>ChatHandler.on_close\<close>.\<close>

definition on_close :: "chat_handler \<Rightarrow> manager \<Rightarrow> error option \<times> manager" where
  "on_close self m =
     (case chat_handler.room_id self of
        None \<Rightarrow> (None, m)
      | Some rid \<Rightarrow> del_client rid (ident self) m)"

text \<open>The events of a room's life, as opposed to those of a broadcast.\<close>

fun lifecycle :: "event \<Rightarrow> bool" where
  "lifecycle (Created rid) = True"
| "lifecycle (Started rid) = True"
| "lifecycle (Stopped rid) = True"
| "lifecycle (Closed rid) = True"
| "lifecycle (Dumped p) = False"
| "lifecycle (Written c b) = False"

section \<open>The invariant of the directory\<close>

text \<open>
  For a room id: as many rooms were constructed as upstream clients started; the
  number started exceeds the number stopped by one if the id is in the directory and
  by nothing otherwise; every client stopped has been closed or has its \<^verbatim>\<open>close\<close>
  scheduled; a room in the directory is running, is filed under its own id and has a
  subscriber.
\<close>

definition room_inv :: "manager \<Rightarrow> int \<Rightarrow> bool" where
  "room_inv m rid =
     (count_list (trace m) (Created rid) = count_list (trace m) (Started rid)
      \<and> count_list (trace m) (Stopped rid) =
          count_list (trace m) (Closed rid) + count_list (closing m) rid
      \<and> (case rooms m rid of
            None \<Rightarrow> count_list (trace m) (Started rid) = count_list (trace m) (Stopped rid)
          | Some r \<Rightarrow>
              count_list (trace m) (Started rid) = Suc (count_list (trace m) (Stopped rid))
              \<and> is_running r \<and> room.room_id r = rid \<and> clients r \<noteq> []))"

definition directory_inv :: "manager \<Rightarrow> bool" where
  "directory_inv m = (\<forall>rid. room_inv m rid)"

section \<open>Example inputs\<close>

text \<open>
  A successful answer of the profile service, and an error answer: a JSON body with a
  code and a message and without \<^verbatim>\<open>data\<close>.
\<close>

definition face_response :: json where
  "face_response =
     JObject [(''code'', JInt 0), (''message'', JString ''0''), (''ttl'', JInt 1),
              (''data'', JObject [(''mid'', JInt 50000), (''name'', JString ''a''),
                                  (''face'', JString ''http://i0.hdslb.com/bfs/face/a.jpg'')])]"

definition not_found_response :: json where
  "not_found_response =
     JObject [(''code'', JInt (- 404)), (''message'', JString ''not found''), (''ttl'', JInt 1)]"

text \<open>A state whose cache holds 50000 entries, the user ids 0 to 49999 in that order.\<close>

definition full_state :: avatar_state where
  "full_state =
     \<lparr>avatar_url_cache =
        map (\<lambda>i. (int i, ''http://i0.hdslb.com/bfs/face/b.jpg@48w_48h'')) [0..<50000],
      last_fetch_avatar_time = 0, last_avatar_failed_time = None, uids_to_fetch_avatar = []\<rparr>"

text \<open>A state with nothing cached and no fetch made recently.\<close>

definition idle_state :: avatar_state where
  "idle_state =
     \<lparr>avatar_url_cache = [], last_fetch_avatar_time = 0, last_avatar_failed_time = None,
      uids_to_fetch_avatar = []\<rparr>"

text \<open>
  A state with one cached user id, and the state that a rejected fetch for another id
  at time 1000000 leaves behind.
\<close>

definition cached_state :: avatar_state where
  "cached_state =
     \<lparr>avatar_url_cache = [(1, ''http://i0.hdslb.com/bfs/face/c.jpg@48w_48h'')],
      last_fetch_avatar_time = 0, last_avatar_failed_time = None, uids_to_fetch_avatar = []\<rparr>"

definition rejected_state :: avatar_state where
  "rejected_state =
     cached_state\<lparr>last_fetch_avatar_time := 1000000, last_avatar_failed_time := Some 1000000\<rparr>"

text \<open>
  The state after two overlapping calls, begun at times 1000000 and 2000000 in
  \<open>cached_state\<close>, were both rejected, the later call first.
\<close>

definition overlapped_state :: avatar_state where
  "overlapped_state =
     cached_state\<lparr>last_fetch_avatar_time := 2000000, last_avatar_failed_time := Some 1000000\<rparr>"

text \<open>A state with one queued user id, the last fetch made at time 0.\<close>

definition queued_state :: avatar_state where
  "queued_state =
     \<lparr>avatar_url_cache = [], last_fetch_avatar_time = 0, last_avatar_failed_time = None,
      uids_to_fetch_avatar = [7]\<rparr>"

text \<open>A room whose owner is user 100, and a chat message of user 5 with no flag set.\<close>

definition owned_room :: room where
  "owned_room =
     \<lparr>room.room_id = 12345, room_owner_uid = Some 100, is_running = True, clients = [4, 9]\<rparr>"

definition plain_danmaku :: danmaku where
  "plain_danmaku =
     \<lparr>uid = 5, admin = 0, privilege_type = 0, timestamp = 1570000000, uname = ''viewer'',
      msg = ''hello'', msg_type = 0, user_level = 12, urank = 5000, mobile_verify = 1,
      danmaku.room_id = 12345, medal_level = 3\<rparr>"


definition one_subscriber :: manager where
  "one_subscriber =
     \<lparr>rooms = [7 \<mapsto> \<lparr>room.room_id = 7, room_owner_uid = None, is_running = True, clients = [1]\<rparr>],
      trace = [Created 7, Started 7], closing = []\<rparr>"

section \<open>Facts about the cache and the eviction loop\<close>

lemma update_new: "map_of c k = None \<Longrightarrow> AList.update k v c = c @ [(k, v)]"
  by (induction c) (auto split: if_splits)

lemma length_delete_less: "map_of c k \<noteq> None \<Longrightarrow> length (AList.delete k c) < length c"
  by (induction c) (auto simp: AList.delete_eq less_Suc_eq_le split: if_splits)

text \<open>
  With at least two rounds allowed and a cache that is not empty, the loop deletes the
  first key and the dict iterator then raises: one entry goes, whatever the bound of
  \<^verbatim>\<open>range\<close>.
\<close>

lemma evict_loop_raises:
  assumes "1 < n" and "cache \<noteq> []"
  shows "evict_loop n (length cache) (map fst cache) cache =
           (Some RuntimeError, AList.delete (fst (hd cache)) cache)"
proof -
  obtain m where n: "n = Suc (Suc m)"
    using assms(1) by (metis One_nat_def Suc_lessE less_imp_Suc_add)
  obtain k v rest where c: "cache = (k, v) # rest"
    using assms(2) by (cases cache) auto
  have "length (AList.delete k cache) < length cache"
    by (rule length_delete_less) (simp add: c)
  then show ?thesis
    by (simp add: n c)
qed

section \<open>The throttle\<close>

text \<open>
  C3. A call for a user id that is not in the cache, made less than 200 ms after
  \<^verbatim>\<open>_last_fetch_avatar_time\<close>, issues no HTTP request (it returns before the
  request, whatever the request would have answered), appends the id to the queue if
  the queue holds fewer than 15 ids and leaves the queue as it is otherwise, changes
  nothing else, and returns the default avatar URL. A queue within its capacity stays
  within it.
\<close>

theorem throttled_call_is_deferred:
  assumes miss: "map_of (avatar_url_cache s) user_id = None"
      and early: "cur_time - last_fetch_avatar_time s < 200000"
  shows "get_avatar_url_start user_id cur_time s =
           (Returned DEFAULT_AVATAR_URL,
            s\<lparr>uids_to_fetch_avatar :=
                 (if length (uids_to_fetch_avatar s) < 15
                  then uids_to_fetch_avatar s @ [user_id]
                  else uids_to_fetch_avatar s)\<rparr>)
       \<and> get_avatar_url user_id cur_time outcome s =
           (Inr DEFAULT_AVATAR_URL,
            s\<lparr>uids_to_fetch_avatar :=
                 (if length (uids_to_fetch_avatar s) < 15
                  then uids_to_fetch_avatar s @ [user_id]
                  else uids_to_fetch_avatar s)\<rparr>)
       \<and> (length (uids_to_fetch_avatar s) \<le> 15 \<longrightarrow>
            length (uids_to_fetch_avatar (snd (get_avatar_url user_id cur_time outcome s))) \<le> 15)"
  using miss early
  by (simp add: get_avatar_url_def get_avatar_url_start_def put_nowait_def)

theorem throttled_call_is_deferred_witness:
  "map_of (avatar_url_cache
      \<lparr>avatar_url_cache = [], last_fetch_avatar_time = 0, last_avatar_failed_time = None,
       uids_to_fetch_avatar = [7]\<rparr>) 42 = None
   \<and> (100000::int) - 0 < 200000
   \<and> get_avatar_url 42 100000 (Raises OtherClientError)
        \<lparr>avatar_url_cache = [], last_fetch_avatar_time = 0, last_avatar_failed_time = None,
         uids_to_fetch_avatar = [7]\<rparr>
      = (Inr DEFAULT_AVATAR_URL,
         \<lparr>avatar_url_cache = [], last_fetch_avatar_time = 0, last_avatar_failed_time = None,
          uids_to_fetch_avatar = [7, 42]\<rparr>)
   \<and> get_avatar_url 42 100000 (Raises OtherClientError)
        \<lparr>avatar_url_cache = [], last_fetch_avatar_time = 0, last_avatar_failed_time = None,
         uids_to_fetch_avatar = [1, 2, 3, 4, 5, 6, 7, 8, 9, 10, 11, 12, 13, 14, 15]\<rparr>
      = (Inr DEFAULT_AVATAR_URL,
         \<lparr>avatar_url_cache = [], last_fetch_avatar_time = 0, last_avatar_failed_time = None,
          uids_to_fetch_avatar = [1, 2, 3, 4, 5, 6, 7, 8, 9, 10, 11, 12, 13, 14, 15]\<rparr>)"
  using
    throttled_call_is_deferred [of
      "\<lparr>avatar_url_cache = [], last_fetch_avatar_time = 0, last_avatar_failed_time = None,
        uids_to_fetch_avatar = [7]\<rparr>" 42 100000 "Raises OtherClientError"]
    throttled_call_is_deferred [of
      "\<lparr>avatar_url_cache = [], last_fetch_avatar_time = 0, last_avatar_failed_time = None,
        uids_to_fetch_avatar = [1, 2, 3, 4, 5, 6, 7, 8, 9, 10, 11, 12, 13, 14, 15]\<rparr>"
      42 100000 "Raises OtherClientError"]
  by simp

lemma face_url_face_response:
  "face_url face_response = Inr ''http://i0.hdslb.com/bfs/face/a.jpg@48w_48h''"
  by (simp add: face_url_def face_response_def endswith_def)

text \<open>
  When the cache is over 50000 entries after the new URL is stored, the call deletes the
  first key of the cache and raises \<^verbatim>\<open>RuntimeError\<close>.
\<close>

lemma resume_eviction:
  assumes "face_url data = Inr url"
      and "50000 < length (AList.update user_id url (avatar_url_cache s))"
  shows "get_avatar_url_resume user_id t (Response 200 (Inr data)) s =
           (Inl RuntimeError,
            s\<lparr>avatar_url_cache :=
                 AList.delete (fst (hd (AList.update user_id url (avatar_url_cache s))))
                   (AList.update user_id url (avatar_url_cache s))\<rparr>)"
proof -
  let ?c = "AList.update user_id url (avatar_url_cache s)"
  have "?c \<noteq> []" using assms(2) by auto
  then have "evict_loop 100 (length ?c) (map fst ?c) ?c =
               (Some RuntimeError, AList.delete (fst (hd ?c)) ?c)"
    by (intro evict_loop_raises) simp_all
  then show ?thesis
    using assms by (simp add: get_avatar_url_resume_def Let_def)
qed

lemma full_state_miss: "50000 \<le> k \<Longrightarrow> map_of (avatar_url_cache full_state) k = None"
  by (auto simp: full_state_def map_of_eq_None_iff)

lemma delete_hd_full:
  "50000 \<le> k \<Longrightarrow>
   AList.delete (fst (hd (avatar_url_cache full_state @ [(k, v)])))
     (avatar_url_cache full_state @ [(k, v)]) = tl (avatar_url_cache full_state) @ [(k, v)]"
  by (simp add: full_state_def upt_rec[of 0 50000] AList.delete_eq filter_map o_def)

lemma full_state_call:
  assumes "50000 \<le> k" and "200000 \<le> now"
  shows "get_avatar_url k now (Response 200 (Inr face_response)) full_state =
     (Inl RuntimeError,
      full_state
        \<lparr>avatar_url_cache :=
           tl (avatar_url_cache full_state) @ [(k, ''http://i0.hdslb.com/bfs/face/a.jpg@48w_48h'')],
         last_fetch_avatar_time := now\<rparr>)"
proof -
  let ?url = "''http://i0.hdslb.com/bfs/face/a.jpg@48w_48h''"
  let ?s = "full_state\<lparr>last_fetch_avatar_time := now\<rparr>"
  have miss: "map_of (avatar_url_cache full_state) k = None"
    by (rule full_state_miss) (rule assms)
  have late: "\<not> now - last_fetch_avatar_time full_state < 200000"
    using assms(2) by (simp add: full_state_def)
  have st: "get_avatar_url_start k now full_state = (Requested, ?s)"
    using miss late by (simp add: get_avatar_url_start_def) (simp add: full_state_def)
  have upd: "AList.update k ?url (avatar_url_cache ?s) = avatar_url_cache full_state @ [(k, ?url)]"
    using miss by (simp add: update_new)
  have len: "50000 < length (AList.update k ?url (avatar_url_cache ?s))"
    unfolding upd by (simp add: full_state_def)
  have "get_avatar_url_resume k now (Response 200 (Inr face_response)) ?s =
          (Inl RuntimeError,
           ?s\<lparr>avatar_url_cache :=
                 AList.delete (fst (hd (AList.update k ?url (avatar_url_cache ?s))))
                   (AList.update k ?url (avatar_url_cache ?s))\<rparr>)"
    using face_url_face_response len by (rule resume_eviction)
  then show ?thesis
    unfolding upd by (simp add: get_avatar_url_def st delete_hd_full [OF assms(1)])
qed

section \<open>The resolver can raise\<close>

text \<open>
  C1. The claim is that \<^verbatim>\<open>get_avatar_url\<close> returns a URL on every path and never
  raises. On a response with status 200 whose body has no \<^verbatim>\<open>data\<close> member (an error
  answer of the profile service), \<^verbatim>\<open>data['data']\<close> raises \<^verbatim>\<open>KeyError\<close>, which nothing
  catches: the call raises it, and the chat message it was resolving the avatar for is
  never broadcast.
\<close>

theorem malformed_response_raises:
  "get_avatar_url 1 1000000 (Response 200 (Inr not_found_response)) idle_state =
     (Inl KeyError, idle_state\<lparr>last_fetch_avatar_time := 1000000\<rparr>)
   \<and> on_receive_danmaku shut r d
        (fst (get_avatar_url 1 1000000 (Response 200 (Inr not_found_response)) idle_state)) tr =
     (Some KeyError, tr)"
  by (simp add: get_avatar_url_def get_avatar_url_start_def get_avatar_url_resume_def
      face_url_def not_found_response_def idle_state_def on_receive_danmaku_def)

section \<open>The eviction\<close>

text \<open>
  C5. The claim is that an insertion into a cache of more than 50000 entries takes at
  least 100 entries out. With 50000 entries cached, a successful fetch for a new user id
  brings the cache to 50001 entries; the eviction loop then deletes one entry and the
  dict iterator raises \<^verbatim>\<open>RuntimeError\<close>, which leaves \<^verbatim>\<open>get_avatar_url\<close>: the cache
  holds 50000 entries, not 49901 or fewer, and the call has not returned the URL.
\<close>

theorem eviction_removes_one_entry_and_raises:
  "length (avatar_url_cache full_state) = 50000
   \<and> fst (get_avatar_url 50000 1000000 (Response 200 (Inr face_response)) full_state) =
       Inl RuntimeError
   \<and> length (avatar_url_cache
        (snd (get_avatar_url 50000 1000000 (Response 200 (Inr face_response)) full_state))) =
       50000"
proof -
  have "get_avatar_url 50000 1000000 (Response 200 (Inr face_response)) full_state =
     (Inl RuntimeError,
      full_state
        \<lparr>avatar_url_cache :=
           tl (avatar_url_cache full_state) @
           [(50000, ''http://i0.hdslb.com/bfs/face/a.jpg@48w_48h'')],
         last_fetch_avatar_time := 1000000\<rparr>)"
    by (rule full_state_call) simp_all
  moreover have "length (avatar_url_cache full_state) = 50000"
    by (simp add: full_state_def)
  ultimately show ?thesis by simp
qed

text \<open>
  C10. The claim is that an eviction removes the 100 oldest keys and that the call then
  returns the fetched URL. In the same situation, for user id 77777: the only key
  removed is the oldest one (user id 0, the head of the cache), the new id is kept with
  its URL at the end, and the call raises \<^verbatim>\<open>RuntimeError\<close> instead of returning the
  URL. The next call for that id is a cache hit.
\<close>

theorem eviction_stops_after_oldest_key:
  "get_avatar_url 77777 1000000 (Response 200 (Inr face_response)) full_state =
     (Inl RuntimeError,
      full_state
        \<lparr>avatar_url_cache :=
           tl (avatar_url_cache full_state) @
           [(77777, ''http://i0.hdslb.com/bfs/face/a.jpg@48w_48h'')],
         last_fetch_avatar_time := 1000000\<rparr>)
   \<and> hd (avatar_url_cache full_state) = (0, ''http://i0.hdslb.com/bfs/face/b.jpg@48w_48h'')
   \<and> length (tl (avatar_url_cache full_state)) = 49999
   \<and> fst (get_avatar_url 77777 1000001 (Raises OtherClientError)
        (snd (get_avatar_url 77777 1000000 (Response 200 (Inr face_response)) full_state))) =
       Inr ''http://i0.hdslb.com/bfs/face/a.jpg@48w_48h''"
proof -
  have call: "get_avatar_url 77777 1000000 (Response 200 (Inr face_response)) full_state =
     (Inl RuntimeError,
      full_state
        \<lparr>avatar_url_cache :=
           tl (avatar_url_cache full_state) @
           [(77777, ''http://i0.hdslb.com/bfs/face/a.jpg@48w_48h'')],
         last_fetch_avatar_time := 1000000\<rparr>)"
    by (rule full_state_call) simp_all
  have hd: "hd (avatar_url_cache full_state) = (0, ''http://i0.hdslb.com/bfs/face/b.jpg@48w_48h'')"
    by (simp add: full_state_def upt_rec[of 0 50000])
  have len: "length (tl (avatar_url_cache full_state)) = 49999"
    by (simp add: full_state_def)
  have "map_of (tl (avatar_url_cache full_state)) 77777 = None"
    by (auto simp: full_state_def map_of_eq_None_iff map_tl [symmetric])
  then have hit: "map_of (tl (avatar_url_cache full_state) @
           [(77777, ''http://i0.hdslb.com/bfs/face/a.jpg@48w_48h'')]) 77777 =
           Some ''http://i0.hdslb.com/bfs/face/a.jpg@48w_48h''"
    by (simp add: map_add_def)
  show ?thesis
    unfolding call using hd len hit
    by (simp add: get_avatar_url_def get_avatar_url_start_def)
qed

section \<open>The backoff\<close>

lemma start_in_window:
  assumes "last_avatar_failed_time s = Some failed" and "t - failed < 183000000"
  shows "get_avatar_url_start user_id t s =
        (Returned (case map_of (avatar_url_cache s) user_id of
                     Some url \<Rightarrow> url | None \<Rightarrow> DEFAULT_AVATAR_URL),
         if map_of (avatar_url_cache s) user_id = None \<and> t - last_fetch_avatar_time s < 200000
         then (case put_nowait (uids_to_fetch_avatar s) user_id of
                 Inl e \<Rightarrow> s | Inr q \<Rightarrow> s\<lparr>uids_to_fetch_avatar := q\<rparr>)
         else s)"
  using assms by (simp add: get_avatar_url_start_def split: option.splits)

lemma call_in_window:
  assumes "last_avatar_failed_time s = Some failed" and "t - failed < 183000000"
  shows "fst (get_avatar_url user_id t outcome s) =
          Inr (case map_of (avatar_url_cache s) user_id of
                 Some url \<Rightarrow> url | None \<Rightarrow> DEFAULT_AVATAR_URL)"
    and "avatar_url_cache (snd (get_avatar_url user_id t outcome s)) = avatar_url_cache s"
    and "last_avatar_failed_time (snd (get_avatar_url user_id t outcome s)) = Some failed"
    and "last_fetch_avatar_time (snd (get_avatar_url user_id t outcome s)) =
           last_fetch_avatar_time s"
  using assms(1)
  by (auto simp: get_avatar_url_def start_in_window [OF assms] split: sum.splits)

lemma calls_in_window:
  assumes "last_avatar_failed_time s = Some failed"
      and "\<forall>(user_id, t, outcome) \<in> set calls. t - failed < 183000000"
  shows "fst (resolve_all calls s) =
           map (\<lambda>(user_id, t, outcome).
                  Inr (case map_of (avatar_url_cache s) user_id of
                         Some url \<Rightarrow> url | None \<Rightarrow> DEFAULT_AVATAR_URL)) calls
         \<and> avatar_url_cache (snd (resolve_all calls s)) = avatar_url_cache s
         \<and> last_avatar_failed_time (snd (resolve_all calls s)) = Some failed
         \<and> last_fetch_avatar_time (snd (resolve_all calls s)) = last_fetch_avatar_time s"
  using assms
proof (induction calls arbitrary: s)
  case Nil
  then show ?case by simp
next
  case (Cons call calls)
  obtain user_id t outcome where call: "call = (user_id, t, outcome)"
    by (cases call) auto
  obtain res s' where step: "get_avatar_url user_id t outcome s = (res, s')"
    by (cases "get_avatar_url user_id t outcome s") auto
  have t: "t - failed < 183000000"
    using Cons.prems(2) call by simp
  have res: "res = Inr (case map_of (avatar_url_cache s) user_id of
                          Some url \<Rightarrow> url | None \<Rightarrow> DEFAULT_AVATAR_URL)"
    and s': "avatar_url_cache s' = avatar_url_cache s"
      "last_avatar_failed_time s' = Some failed"
      "last_fetch_avatar_time s' = last_fetch_avatar_time s"
    using call_in_window [OF Cons.prems(1) t, of user_id outcome] step by simp_all
  have rest: "\<forall>(user_id, t, outcome) \<in> set calls. t - failed < 183000000"
    using Cons.prems(2) by simp
  obtain ress s'' where tail: "resolve_all calls s' = (ress, s'')"
    by (cases "resolve_all calls s'") auto
  from Cons.IH [OF s'(2) rest] show ?case
    by (simp add: call step res s' tail)
qed

text \<open>
  C4, as claimed, fails. First, a rejected fetch (status 412) at time 1000000 starts
  the backoff, and one second later a call for a cached user id returns the cached
  URL, not the default one. Second, of two overlapping calls begun at times 1000000
  and 2000000, the later is rejected first and the earlier after it: the failure time
  kept is that of the earlier call, and a call at time 184500000, less than 183
  seconds after the time of the later rejected call, issues a request.
\<close>

theorem backoff_cache_hit_counterexample:
  "get_avatar_url 2 1000000 (Response 412 (Inr JNull)) cached_state =
     (Inr DEFAULT_AVATAR_URL, rejected_state)
   \<and> (2000000::int) - 1000000 < 183000000
   \<and> get_avatar_url 1 2000000 (Raises OtherClientError) rejected_state =
     (Inr ''http://i0.hdslb.com/bfs/face/c.jpg@48w_48h'', rejected_state)
   \<and> ''http://i0.hdslb.com/bfs/face/c.jpg@48w_48h'' \<noteq> DEFAULT_AVATAR_URL
   \<and> fst (get_avatar_url_start 2 1000000 cached_state) = Requested
   \<and> fst (get_avatar_url_start 3 2000000 (snd (get_avatar_url_start 2 1000000 cached_state))) =
       Requested
   \<and> get_avatar_url_resume 2 1000000 (Response 412 (Inr JNull))
        (snd (get_avatar_url_resume 3 2000000 (Response 412 (Inr JNull))
           (snd (get_avatar_url_start 3 2000000
              (snd (get_avatar_url_start 2 1000000 cached_state)))))) =
       (Inr DEFAULT_AVATAR_URL, overlapped_state)
   \<and> (184500000::int) - 2000000 < 183000000
   \<and> fst (get_avatar_url_start 4 184500000 overlapped_state) = Requested"
  by (simp add: get_avatar_url_def get_avatar_url_start_def get_avatar_url_resume_def
      cached_state_def rejected_state_def overlapped_state_def DEFAULT_AVATAR_URL_def)

text \<open>
  C4, amended. A response whose status is not 200 sets \<^verbatim>\<open>_last_avatar_failed_time\<close> to
  the time the call read before its request, and the call returns the default URL.
  That time is changed by nothing else but a call that issues a request, which clears
  it; the background worker leaves it alone. While the time kept there is less than 183 seconds before the time a call reads,
  the call issues no request and changes neither the cache nor the two times; it
  returns the cached URL when the id is in the cache and the default URL otherwise. So
  calls that follow a rejected one without overlapping, each made less than 183
  seconds after the time of the rejected call, all issue no request. A call for an id
  that is not in the cache, made 183 seconds or more after the time kept and 200 ms or
  more after the last fetch, clears \<^verbatim>\<open>_last_avatar_failed_time\<close>, records the fetch time
  and issues the request. A \<^verbatim>\<open>ClientConnectionError\<close>, raised by the request or while
  the body is read, gives the default URL and leaves the state as it is.
\<close>

theorem backoff_window:
  "(status \<noteq> 200 \<longrightarrow>
      get_avatar_url_resume user_id cur_time (Response status body) s =
        (Inr DEFAULT_AVATAR_URL, s\<lparr>last_avatar_failed_time := Some cur_time\<rparr>))
   \<and> last_avatar_failed_time (snd (get_avatar_url_resume user_id cur_time outcome s)) =
        (case outcome of
           Raises e \<Rightarrow> last_avatar_failed_time s
         | Response status body \<Rightarrow>
             if status \<noteq> 200 then Some cur_time else last_avatar_failed_time s)
   \<and> last_avatar_failed_time (snd (get_avatar_url_start user_id t s)) =
        (if fst (get_avatar_url_start user_id t s) = Requested then None
         else last_avatar_failed_time s)
   \<and> last_avatar_failed_time (snd (fetch_avatar_loop_step t s)) = last_avatar_failed_time s
   \<and> (last_avatar_failed_time s = Some failed \<and> t - failed < 183000000 \<longrightarrow>
        fst (get_avatar_url_start user_id t s) =
          Returned (case map_of (avatar_url_cache s) user_id of
                      Some url \<Rightarrow> url | None \<Rightarrow> DEFAULT_AVATAR_URL)
        \<and> fst (get_avatar_url user_id t outcome s) =
          Inr (case map_of (avatar_url_cache s) user_id of
                 Some url \<Rightarrow> url | None \<Rightarrow> DEFAULT_AVATAR_URL)
        \<and> avatar_url_cache (snd (get_avatar_url user_id t outcome s)) = avatar_url_cache s
        \<and> last_avatar_failed_time (snd (get_avatar_url user_id t outcome s)) = Some failed
        \<and> last_fetch_avatar_time (snd (get_avatar_url user_id t outcome s)) =
            last_fetch_avatar_time s)
   \<and> (last_avatar_failed_time s = Some failed
        \<and> (\<forall>(user_id, t, outcome) \<in> set calls. t - failed < 183000000) \<longrightarrow>
        fst (resolve_all calls s) =
          map (\<lambda>(user_id, t, outcome).
                 Inr (case map_of (avatar_url_cache s) user_id of
                        Some url \<Rightarrow> url | None \<Rightarrow> DEFAULT_AVATAR_URL)) calls
        \<and> avatar_url_cache (snd (resolve_all calls s)) = avatar_url_cache s
        \<and> last_avatar_failed_time (snd (resolve_all calls s)) = Some failed
        \<and> last_fetch_avatar_time (snd (resolve_all calls s)) = last_fetch_avatar_time s)
   \<and> (last_avatar_failed_time s = Some failed \<and> 183000000 \<le> t - failed
        \<and> 200000 \<le> t - last_fetch_avatar_time s
        \<and> map_of (avatar_url_cache s) user_id = None \<longrightarrow>
        get_avatar_url_start user_id t s =
          (Requested, s\<lparr>last_avatar_failed_time := None, last_fetch_avatar_time := t\<rparr>))
   \<and> get_avatar_url_resume user_id cur_time (Raises ClientConnectionError) s =
        (Inr DEFAULT_AVATAR_URL, s)
   \<and> get_avatar_url_resume user_id cur_time (Response 200 (Inl ClientConnectionError)) s =
        (Inr DEFAULT_AVATAR_URL, s)"
proof -
  have rejected: "status \<noteq> 200 \<longrightarrow>
      get_avatar_url_resume user_id cur_time (Response status body) s =
        (Inr DEFAULT_AVATAR_URL, s\<lparr>last_avatar_failed_time := Some cur_time\<rparr>)"
    by (simp add: get_avatar_url_resume_def)
  have resumed: "last_avatar_failed_time (snd (get_avatar_url_resume user_id cur_time outcome s)) =
        (case outcome of
           Raises e \<Rightarrow> last_avatar_failed_time s
         | Response status body \<Rightarrow>
             if status \<noteq> 200 then Some cur_time else last_avatar_failed_time s)"
    by (simp add: get_avatar_url_resume_def Let_def
        split: fetch_outcome.splits sum.splits prod.splits option.splits)
  have started: "last_avatar_failed_time (snd (get_avatar_url_start user_id t s)) =
        (if fst (get_avatar_url_start user_id t s) = Requested then None
         else last_avatar_failed_time s)"
    by (simp add: get_avatar_url_start_def put_nowait_def split: option.splits)
  have worker: "last_avatar_failed_time (snd (fetch_avatar_loop_step t s)) =
        last_avatar_failed_time s"
    by (simp add: fetch_avatar_loop_step_def Let_def split: list.splits)
  have window: "last_avatar_failed_time s = Some failed \<and> t - failed < 183000000 \<longrightarrow>
        fst (get_avatar_url_start user_id t s) =
          Returned (case map_of (avatar_url_cache s) user_id of
                      Some url \<Rightarrow> url | None \<Rightarrow> DEFAULT_AVATAR_URL)
        \<and> fst (get_avatar_url user_id t outcome s) =
          Inr (case map_of (avatar_url_cache s) user_id of
                 Some url \<Rightarrow> url | None \<Rightarrow> DEFAULT_AVATAR_URL)
        \<and> avatar_url_cache (snd (get_avatar_url user_id t outcome s)) = avatar_url_cache s
        \<and> last_avatar_failed_time (snd (get_avatar_url user_id t outcome s)) = Some failed
        \<and> last_fetch_avatar_time (snd (get_avatar_url user_id t outcome s)) =
            last_fetch_avatar_time s"
    using call_in_window [of s failed t user_id outcome]
    by (simp add: start_in_window)
  have sequence: "last_avatar_failed_time s = Some failed
        \<and> (\<forall>(user_id, t, outcome) \<in> set calls. t - failed < 183000000) \<longrightarrow>
        fst (resolve_all calls s) =
          map (\<lambda>(user_id, t, outcome).
                 Inr (case map_of (avatar_url_cache s) user_id of
                        Some url \<Rightarrow> url | None \<Rightarrow> DEFAULT_AVATAR_URL)) calls
        \<and> avatar_url_cache (snd (resolve_all calls s)) = avatar_url_cache s
        \<and> last_avatar_failed_time (snd (resolve_all calls s)) = Some failed
        \<and> last_fetch_avatar_time (snd (resolve_all calls s)) = last_fetch_avatar_time s"
    using calls_in_window [of s failed calls] by blast
  have after: "last_avatar_failed_time s = Some failed \<and> 183000000 \<le> t - failed
        \<and> 200000 \<le> t - last_fetch_avatar_time s
        \<and> map_of (avatar_url_cache s) user_id = None \<longrightarrow>
        get_avatar_url_start user_id t s =
          (Requested, s\<lparr>last_avatar_failed_time := None, last_fetch_avatar_time := t\<rparr>)"
    by (simp add: get_avatar_url_start_def)
  have conn: "get_avatar_url_resume user_id cur_time (Raises ClientConnectionError) s =
        (Inr DEFAULT_AVATAR_URL, s)"
    "get_avatar_url_resume user_id cur_time (Response 200 (Inl ClientConnectionError)) s =
        (Inr DEFAULT_AVATAR_URL, s)"
    by (simp_all add: get_avatar_url_resume_def)
  from rejected resumed started worker window sequence after conn show ?thesis
    by (intro conjI)
qed

theorem backoff_window_witness:
  "(412::int) \<noteq> 200
   \<and> get_avatar_url_resume 2 1000000 (Response 412 (Inr JNull))
        (cached_state\<lparr>last_fetch_avatar_time := 1000000\<rparr>) =
      (Inr DEFAULT_AVATAR_URL, rejected_state)
   \<and> last_avatar_failed_time rejected_state = Some 1000000
   \<and> (2000000::int) - 1000000 < 183000000
   \<and> fst (get_avatar_url_start 3 2000000 rejected_state) = Returned DEFAULT_AVATAR_URL
   \<and> fst (get_avatar_url 3 2000000 (Response 200 (Inr face_response)) rejected_state) =
       Inr DEFAULT_AVATAR_URL
   \<and> last_avatar_failed_time
        (snd (get_avatar_url 3 2000000 (Response 200 (Inr face_response)) rejected_state)) =
       Some 1000000
   \<and> (90000000::int) - 1000000 < 183000000
   \<and> (184000000::int) - 1 - 1000000 < 183000000
   \<and> fst (resolve_all
        [(3, 2000000, Response 200 (Inr face_response)),
         (1, 90000000, Raises OtherClientError),
         (5, 184000000 - 1, Response 200 (Inr face_response))] rejected_state) =
       [Inr DEFAULT_AVATAR_URL, Inr ''http://i0.hdslb.com/bfs/face/c.jpg@48w_48h'',
        Inr DEFAULT_AVATAR_URL]
   \<and> last_avatar_failed_time (snd (resolve_all
        [(3, 2000000, Response 200 (Inr face_response)),
         (1, 90000000, Raises OtherClientError),
         (5, 184000000 - 1, Response 200 (Inr face_response))] rejected_state)) =
       Some 1000000
   \<and> (183000000::int) \<le> 184000000 - 1000000
   \<and> (200000::int) \<le> 184000000 - last_fetch_avatar_time rejected_state
   \<and> map_of (avatar_url_cache rejected_state) 3 = None
   \<and> get_avatar_url_start 3 184000000 rejected_state =
       (Requested,
        rejected_state\<lparr>last_avatar_failed_time := None, last_fetch_avatar_time := 184000000\<rparr>)"
proof -
  let ?calls = "[(3, 2000000, Response 200 (Inr face_response)),
                 (1, 90000000, Raises OtherClientError),
                 (5, 184000000 - 1, Response 200 (Inr face_response))]"
  have ne: "(412::int) \<noteq> 200" and t: "(2000000::int) - 1000000 < 183000000"
    and late: "(183000000::int) \<le> 184000000 - 1000000"
    by simp_all
  have failed: "last_avatar_failed_time rejected_state = Some 1000000"
    and fetched: "(200000::int) \<le> 184000000 - last_fetch_avatar_time rejected_state"
    and miss: "map_of (avatar_url_cache rejected_state) 3 = None"
    by (simp_all add: rejected_state_def cached_state_def)
  have all: "\<forall>(user_id, t, outcome) \<in> set ?calls. t - 1000000 < (183000000::int)"
    by simp
  have "get_avatar_url_resume 2 1000000 (Response 412 (Inr JNull))
        (cached_state\<lparr>last_fetch_avatar_time := 1000000\<rparr>) =
      (Inr DEFAULT_AVATAR_URL,
       cached_state\<lparr>last_fetch_avatar_time := 1000000,
                    last_avatar_failed_time := Some 1000000\<rparr>)"
    using ne
      backoff_window [where status = 412 and user_id = 2 and cur_time = 1000000
        and body = "Inr JNull" and s = "cached_state\<lparr>last_fetch_avatar_time := 1000000\<rparr>"]
    by blast
  then have rejected: "get_avatar_url_resume 2 1000000 (Response 412 (Inr JNull))
        (cached_state\<lparr>last_fetch_avatar_time := 1000000\<rparr>) =
      (Inr DEFAULT_AVATAR_URL, rejected_state)"
    by (simp add: rejected_state_def)
  note in_window = backoff_window [where s = rejected_state and failed = 1000000
      and t = 2000000 and user_id = 3 and outcome = "Response 200 (Inr face_response)"
      and calls = ?calls]
  have one: "fst (get_avatar_url_start 3 2000000 rejected_state) = Returned DEFAULT_AVATAR_URL"
    "fst (get_avatar_url 3 2000000 (Response 200 (Inr face_response)) rejected_state) =
       Inr DEFAULT_AVATAR_URL"
    "last_avatar_failed_time
        (snd (get_avatar_url 3 2000000 (Response 200 (Inr face_response)) rejected_state)) =
       Some 1000000"
    using in_window failed t miss by simp_all
  have "fst (resolve_all ?calls rejected_state) =
          map (\<lambda>(user_id, t, outcome).
                 Inr (case map_of (avatar_url_cache rejected_state) user_id of
                        Some url \<Rightarrow> url | None \<Rightarrow> DEFAULT_AVATAR_URL)) ?calls"
    and kept: "last_avatar_failed_time (snd (resolve_all ?calls rejected_state)) = Some 1000000"
    using in_window failed all by simp_all
  then have many: "fst (resolve_all ?calls rejected_state) =
       [Inr DEFAULT_AVATAR_URL, Inr ''http://i0.hdslb.com/bfs/face/c.jpg@48w_48h'',
        Inr DEFAULT_AVATAR_URL]"
    by (simp add: rejected_state_def cached_state_def)
  have fresh: "get_avatar_url_start 3 184000000 rejected_state =
       (Requested,
        rejected_state\<lparr>last_avatar_failed_time := None, last_fetch_avatar_time := 184000000\<rparr>)"
    using failed late fetched miss
      backoff_window [where s = rejected_state and failed = 1000000 and t = 184000000
        and user_id = 3]
    by simp
  have t': "(90000000::int) - 1000000 < 183000000"
    "(184000000::int) - 1 - 1000000 < 183000000"
    by simp_all
  from ne rejected failed t one t' many kept late fetched miss fresh
  show ?thesis by (intro conjI)
qed

section \<open>The background worker\<close>

text \<open>
  C6, as claimed, fails: 250 ms after the last fetch, more than the 200 ms of the
  claim, the worker does not go on at once but sleeps another 150 ms.
\<close>

theorem worker_sleep_counterexample:
  "(200000::int) \<le> 250000 - last_fetch_avatar_time queued_state
   \<and> fst (fetch_avatar_loop_step 250000 queued_state) = SleepThenSpawn 150000 7
   \<and> sleep_duration 150000 = 150000
   \<and> sleep_duration 150000 \<noteq> 0"
  by (simp add: fetch_avatar_loop_step_def queued_state_def sleep_duration_def)

text \<open>
  C6, amended. An iteration waits while the queue is empty. Otherwise it takes the
  head of the queue; it skips an id that is in the cache; for any other id it sleeps
  for what is left of 400 ms since the last fetch (not at all once 400 ms have passed)
  and then schedules \<^verbatim>\<open>get_avatar_url\<close> for that id. It does not wait for that call:
  the state after the iteration is the state before it without the head of the queue,
  and the next iteration handles the next id.
\<close>

theorem worker_iteration:
  "(uids_to_fetch_avatar s = [] \<longrightarrow> fetch_avatar_loop_step now s = (Waiting, s))
   \<and> (uids_to_fetch_avatar s = user_id # rest \<longrightarrow>
        fetch_avatar_loop_step now s =
          (if map_of (avatar_url_cache s) user_id \<noteq> None then Skipped user_id
           else SleepThenSpawn (400000 - (now - last_fetch_avatar_time s)) user_id,
           s\<lparr>uids_to_fetch_avatar := rest\<rparr>))
   \<and> sleep_duration (400000 - (now - last_fetch_avatar_time s)) =
        (if 400000 \<le> now - last_fetch_avatar_time s then 0
         else last_fetch_avatar_time s + 400000 - now)
   \<and> (uids_to_fetch_avatar s = user_id # next_id # rest
        \<and> map_of (avatar_url_cache s) next_id = None \<longrightarrow>
        fst (fetch_avatar_loop_step now' (snd (fetch_avatar_loop_step now s))) =
          SleepThenSpawn (400000 - (now' - last_fetch_avatar_time s)) next_id)"
  by (simp add: fetch_avatar_loop_step_def sleep_duration_def Let_def)

theorem worker_iteration_witness:
  "uids_to_fetch_avatar (idle_state\<lparr>uids_to_fetch_avatar := []\<rparr>) = []
   \<and> fetch_avatar_loop_step 100000 (idle_state\<lparr>uids_to_fetch_avatar := []\<rparr>) =
       (Waiting, idle_state\<lparr>uids_to_fetch_avatar := []\<rparr>)
   \<and> uids_to_fetch_avatar (idle_state\<lparr>uids_to_fetch_avatar := [7, 8]\<rparr>) = 7 # 8 # []
   \<and> map_of (avatar_url_cache (idle_state\<lparr>uids_to_fetch_avatar := [7, 8]\<rparr>)) 8 = None
   \<and> fetch_avatar_loop_step 100000 (idle_state\<lparr>uids_to_fetch_avatar := [7, 8]\<rparr>) =
       (SleepThenSpawn 300000 7, idle_state\<lparr>uids_to_fetch_avatar := [8]\<rparr>)
   \<and> sleep_duration 300000 = 300000
   \<and> fst (fetch_avatar_loop_step 500000
        (snd (fetch_avatar_loop_step 100000 (idle_state\<lparr>uids_to_fetch_avatar := [7, 8]\<rparr>)))) =
       SleepThenSpawn (- 100000) 8
   \<and> sleep_duration (- 100000) = 0"
  using
    worker_iteration [of "idle_state\<lparr>uids_to_fetch_avatar := []\<rparr>" 100000 7 "[]" 8 500000]
    worker_iteration [of "idle_state\<lparr>uids_to_fetch_avatar := [7, 8]\<rparr>" 100000 7 "[8]" 8 500000]
    worker_iteration [of "idle_state\<lparr>uids_to_fetch_avatar := [7, 8]\<rparr>" 100000 7 "[]" 8 500000]
    worker_iteration [of "idle_state\<lparr>uids_to_fetch_avatar := [7, 8]\<rparr>" 500000 7 "[8]" 8 500000]
  by (simp add: idle_state_def)

section \<open>Broadcasts\<close>

lemma write_all_append:
  "write_all shut cs b tr = (fst (write_all shut cs b []), tr @ snd (write_all shut cs b []))"
proof (induction cs arbitrary: tr)
  case Nil
  then show ?case by simp
next
  case (Cons c cs)
  show ?case
    using Cons.IH [of "tr @ [Written c b]"] Cons.IH [of "[Written c b]"]
    by simp
qed

lemma write_all_open:
  "set cs \<inter> shut = {} \<Longrightarrow> write_all shut cs b tr = (None, tr @ map (\<lambda>c. Written c b) cs)"
  by (induction cs arbitrary: tr) auto

lemma write_all_lifecycle:
  "lifecycle e \<Longrightarrow> count_list (snd (write_all shut cs b tr)) e = count_list tr e"
  by (induction cs arbitrary: tr) auto

lemma send_message_append:
  "send_message shut cmd data r tr =
     (fst (send_message shut cmd data r []), tr @ snd (send_message shut cmd data r []))"
  using
    write_all_append [of shut "clients r"
      "Encoded (JObject [(''cmd'', JInt (command_value cmd)), (''data'', data)])"
      "tr @ [Dumped (JObject [(''cmd'', JInt (command_value cmd)), (''data'', data)])]"]
    write_all_append [of shut "clients r"
      "Encoded (JObject [(''cmd'', JInt (command_value cmd)), (''data'', data)])"
      "[Dumped (JObject [(''cmd'', JInt (command_value cmd)), (''data'', data)])]"]
  by (simp add: send_message_def Let_def)

lemma send_message_lifecycle:
  "lifecycle e \<Longrightarrow> count_list (snd (send_message shut cmd data r tr)) e = count_list tr e"
  by (cases e) (simp_all add: send_message_def Let_def write_all_lifecycle)

lemma send_messages_append:
  "send_messages shut msgs r tr =
     (fst (send_messages shut msgs r []), tr @ snd (send_messages shut msgs r []))"
proof (induction msgs arbitrary: tr)
  case Nil
  then show ?case by simp
next
  case (Cons msg msgs)
  obtain cmd data where msg: "msg = (cmd, data)"
    by (cases msg) auto
  obtain raised evs where one: "send_message shut cmd data r [] = (raised, evs)"
    by (cases "send_message shut cmd data r []") auto
  have at_tr: "send_message shut cmd data r tr = (raised, tr @ evs)"
    using send_message_append [of shut cmd data r tr] one by simp
  show ?case
  proof (cases raised)
    case None
    then show ?thesis
      using Cons.IH [of "tr @ evs"] Cons.IH [of evs]
      by (simp add: msg one at_tr)
  next
    case (Some e)
    then show ?thesis
      by (simp add: msg one at_tr)
  qed
qed

lemma send_messages_lifecycle:
  "lifecycle e \<Longrightarrow> count_list (snd (send_messages shut msgs r tr)) e = count_list tr e"
proof (induction msgs arbitrary: tr)
  case Nil
  then show ?case by simp
next
  case (Cons msg msgs)
  obtain cmd data where msg: "msg = (cmd, data)"
    by (cases msg) auto
  obtain raised evs where one: "send_message shut cmd data r tr = (raised, evs)"
    by (cases "send_message shut cmd data r tr") auto
  have evs: "count_list evs e = count_list tr e"
    using send_message_lifecycle [OF Cons.prems, of shut cmd data r tr] one by simp
  show ?case
    using Cons.IH [OF Cons.prems, of evs] evs
    by (cases raised) (simp_all add: msg one)
qed

lemma send_test_message_append:
  "send_test_message shut r now tr =
     (fst (send_test_message shut r now []), tr @ snd (send_test_message shut r now []))"
  unfolding send_test_message_def by (rule send_messages_append)

lemma count_test_messages:
  "lifecycle e \<Longrightarrow> count_list (snd (send_test_message shut r now [])) e = 0"
  by (simp add: send_test_message_def send_messages_lifecycle)

text \<open>
  When no subscriber of the room has a closed connection, a broadcast encodes
  \<^verbatim>\<open>{'cmd': cmd, 'data': data}\<close> once and then hands that one text to every subscriber,
  in the order of the list, and raises nothing.
\<close>

lemma broadcast_to_open_transports:
  assumes "set (clients r) \<inter> shut = {}"
  shows "send_message shut cmd data r tr =
     (None,
      tr @ Dumped (JObject [(''cmd'', JInt (command_value cmd)), (''data'', data)])
         # map (\<lambda>c. Written c (Encoded (JObject [(''cmd'', JInt (command_value cmd)), (''data'', data)])))
             (clients r))"
  using assms by (simp add: send_message_def Let_def write_all_open)

text \<open>
  C8. The claim is that a broadcast delivers the encoded text to each of the
  subscribers of the room. With subscribers 4 and 9 in the room and the connection of
  subscriber 4 closed or closing, \<^verbatim>\<open>write_message\<close> raises for subscriber 4, the
  exception leaves the loop and \<^verbatim>\<open>send_message\<close>, and subscriber 9, whose connection
  is open, is not written to. With both connections open each gets the text once, in
  the order they joined.
\<close>

theorem closed_transport_stops_broadcast:
  "clients owned_room = [4, 9]
   \<and> send_message {4} ADD_GIFT (JObject [(''giftNum'', JInt 1)]) owned_room [] =
       (Some WebSocketClosedError,
        [Dumped (JObject [(''cmd'', JInt 2), (''data'', JObject [(''giftNum'', JInt 1)])])])
   \<and> send_message {} ADD_GIFT (JObject [(''giftNum'', JInt 1)]) owned_room [] =
       (None,
        [Dumped (JObject [(''cmd'', JInt 2), (''data'', JObject [(''giftNum'', JInt 1)])]),
         Written 4 (Encoded (JObject [(''cmd'', JInt 2), (''data'', JObject [(''giftNum'', JInt 1)])])),
         Written 9 (Encoded (JObject [(''cmd'', JInt 2), (''data'', JObject [(''giftNum'', JInt 1)])]))])"
  by (simp add: send_message_def Let_def owned_room_def)

section \<open>The author type\<close>

text \<open>
  C7. The author type of a chat message is 3 when the sender is the owner the room has
  learned, whatever the flags; otherwise 2 when the admin flag is set; otherwise 1 when
  the privilege type is not 0; otherwise 0. It is the \<^verbatim>\<open>authorType\<close> of the broadcast
  data.
\<close>

theorem author_type_precedence:
  "(room_owner_uid r = Some (uid d) \<longrightarrow> author_type r d = 3)
   \<and> (room_owner_uid r \<noteq> Some (uid d) \<and> admin d \<noteq> 0 \<longrightarrow> author_type r d = 2)
   \<and> (room_owner_uid r \<noteq> Some (uid d) \<and> admin d = 0 \<and> privilege_type d \<noteq> 0 \<longrightarrow>
        author_type r d = 1)
   \<and> (room_owner_uid r \<noteq> Some (uid d) \<and> admin d = 0 \<and> privilege_type d = 0 \<longrightarrow>
        author_type r d = 0)
   \<and> getitem (text_data r d avatar_url) ''authorType'' = Inr (JInt (author_type r d))"
  by (auto simp: author_type_def text_data_def)

theorem author_type_precedence_witness:
  "room_owner_uid owned_room = Some (uid (plain_danmaku\<lparr>uid := 100, admin := 1, privilege_type := 3\<rparr>))
   \<and> author_type owned_room (plain_danmaku\<lparr>uid := 100, admin := 1, privilege_type := 3\<rparr>) = 3
   \<and> room_owner_uid owned_room \<noteq> Some (uid (plain_danmaku\<lparr>admin := 1, privilege_type := 3\<rparr>))
   \<and> admin (plain_danmaku\<lparr>admin := 1, privilege_type := 3\<rparr>) \<noteq> 0
   \<and> author_type owned_room (plain_danmaku\<lparr>admin := 1, privilege_type := 3\<rparr>) = 2
   \<and> admin (plain_danmaku\<lparr>privilege_type := 3\<rparr>) = 0
   \<and> privilege_type (plain_danmaku\<lparr>privilege_type := 3\<rparr>) \<noteq> 0
   \<and> author_type owned_room (plain_danmaku\<lparr>privilege_type := 3\<rparr>) = 1
   \<and> privilege_type plain_danmaku = 0
   \<and> author_type owned_room plain_danmaku = 0
   \<and> getitem (text_data owned_room plain_danmaku DEFAULT_AVATAR_URL) ''authorType'' =
       Inr (JInt 0)"
  using
    author_type_precedence [of owned_room
      "plain_danmaku\<lparr>uid := 100, admin := 1, privilege_type := 3\<rparr>" DEFAULT_AVATAR_URL]
    author_type_precedence [of owned_room
      "plain_danmaku\<lparr>admin := 1, privilege_type := 3\<rparr>" DEFAULT_AVATAR_URL]
    author_type_precedence [of owned_room
      "plain_danmaku\<lparr>privilege_type := 3\<rparr>" DEFAULT_AVATAR_URL]
    author_type_precedence [of owned_room plain_danmaku DEFAULT_AVATAR_URL]
  by (simp add: owned_room_def plain_danmaku_def)

section \<open>The room manager keeps one room per id\<close>

lemma add_client_new:
  assumes "rooms m rid = None"
  shows "add_client shut debug now rid c m =
           (if debug
            then fst (send_test_message shut
                   \<lparr>room.room_id = rid, room_owner_uid = None, is_running = True, clients = [c]\<rparr>
                   now [])
            else None,
            \<lparr>rooms = (rooms m)(rid \<mapsto>
               \<lparr>room.room_id = rid, room_owner_uid = None, is_running = True, clients = [c]\<rparr>),
             trace = trace m @ [Created rid, Started rid] @
               (if debug
                then snd (send_test_message shut
                       \<lparr>room.room_id = rid, room_owner_uid = None, is_running = True, clients = [c]\<rparr>
                       now [])
                else []),
             closing = closing m\<rparr>)"
  using assms
  by (simp add: add_client_def Room_def start_def Let_def
      send_test_message_append [of _ _ _ "trace m @ [Created rid, Started rid]"])

lemma add_client_known:
  assumes "rooms m rid = Some r"
  shows "add_client shut debug now rid c m =
           (if debug then fst (send_test_message shut (r\<lparr>clients := clients r @ [c]\<rparr>) now [])
            else None,
            \<lparr>rooms = (rooms m)(rid \<mapsto> r\<lparr>clients := clients r @ [c]\<rparr>),
             trace = trace m @
               (if debug then snd (send_test_message shut (r\<lparr>clients := clients r @ [c]\<rparr>) now [])
                else []),
             closing = closing m\<rparr>)"
  using assms
  by (simp add: add_client_def Let_def send_test_message_append [of _ _ _ "trace m"])

lemma del_client_unknown: "rooms m rid = None \<Longrightarrow> del_client rid c m = (None, m)"
  by (simp add: del_client_def)

lemma del_client_last:
  assumes "rooms m rid = Some r" and "clients r = [c]"
  shows "del_client rid c m =
           (case stop_and_close (r\<lparr>clients := []\<rparr>) (trace m) (closing m) of
              (tr, pending) \<Rightarrow>
                (None, m\<lparr>rooms := (rooms m)(rid := None), trace := tr, closing := pending\<rparr>))"
  using assms by (simp add: del_client_def Let_def)

lemma run_close_pending:
  "rid \<in> set (closing m) \<Longrightarrow>
   run_close rid m = m\<lparr>closing := remove1 rid (closing m), trace := trace m @ [Closed rid]\<rparr>"
  by (simp add: run_close_def)

lemma run_close_idle: "rid \<notin> set (closing m) \<Longrightarrow> run_close rid m = m"
  by (simp add: run_close_def)

lemma add_client_rooms:
  "rooms (snd (add_client shut debug now rid c m)) =
     (rooms m)(rid \<mapsto>
        (case rooms m rid of
           None \<Rightarrow> \<lparr>room.room_id = rid, room_owner_uid = None, is_running = True, clients = [c]\<rparr>
         | Some r \<Rightarrow> r\<lparr>clients := clients r @ [c]\<rparr>))"
  by (cases "rooms m rid") (simp_all add: add_client_new add_client_known)

lemma add_client_closing: "closing (snd (add_client shut debug now rid c m)) = closing m"
  by (cases "rooms m rid") (simp_all add: add_client_new add_client_known)

lemma add_client_count:
  assumes "lifecycle e"
  shows "count_list (trace (snd (add_client shut debug now rid c m))) e =
           count_list (trace m) e +
           (if rooms m rid = None then count_list [Created rid, Started rid] e else 0)"
  using assms
  by (cases "rooms m rid") (simp_all add: add_client_new add_client_known count_test_messages)

lemma add_client_room_inv:
  assumes "room_inv m k"
  shows "room_inv (snd (add_client shut debug now rid c m)) k"
  using assms
  by (auto simp: room_inv_def add_client_rooms add_client_count add_client_closing
      split: option.splits)

lemma del_client_cases:
  "del_client rid c m =
     (case rooms m rid of
        None \<Rightarrow> (None, m)
      | Some r \<Rightarrow>
          if c \<notin> set (clients r) then (Some ValueError, m)
          else if remove1 c (clients r) = [] then
            (None, m\<lparr>rooms := (rooms m)(rid := None),
                     trace := (if is_running r then trace m @ [Stopped (room.room_id r)]
                               else trace m),
                     closing := closing m @ [room.room_id r]\<rparr>)
          else (None, m\<lparr>rooms := (rooms m)(rid \<mapsto> r\<lparr>clients := remove1 c (clients r)\<rparr>)\<rparr>))"
  by (simp add: del_client_def Let_def stop_and_close_def split: option.splits)

lemma del_client_room_inv:
  assumes "room_inv m k" and "room_inv m rid"
  shows "room_inv (snd (del_client rid c m)) k"
proof (cases "rooms m rid")
  case None
  then show ?thesis using assms by (simp add: del_client_cases)
next
  case (Some r)
  then have r: "is_running r" "room.room_id r = rid"
    using assms(2) by (simp_all add: room_inv_def)
  show ?thesis
  proof (cases "c \<in> set (clients r)")
    case False
    then show ?thesis using assms Some by (simp add: del_client_cases)
  next
    case True
    show ?thesis
    proof (cases "remove1 c (clients r) = []")
      case empty: True
      have "snd (del_client rid c m) =
              m\<lparr>rooms := (rooms m)(rid := None),
                trace := trace m @ [Stopped rid], closing := closing m @ [rid]\<rparr>"
        using Some True empty r by (simp add: del_client_cases)
      then show ?thesis
        using assms Some by (auto simp: room_inv_def split: option.splits)
    next
      case False
      have "snd (del_client rid c m) =
              m\<lparr>rooms := (rooms m)(rid \<mapsto> r\<lparr>clients := remove1 c (clients r)\<rparr>)\<rparr>"
        using Some True False by (simp add: del_client_cases)
      then show ?thesis
        using assms Some False r by (auto simp: room_inv_def split: option.splits)
    qed
  qed
qed

lemma count_list_remove1:
  "count_list (remove1 x xs) y =
     (if x = y \<and> x \<in> set xs then count_list xs y - 1 else count_list xs y)"
  by (induction xs) auto

lemma run_close_room_inv:
  assumes "room_inv m k"
  shows "room_inv (run_close rid m) k"
proof (cases "rid \<in> set (closing m)")
  case False
  then show ?thesis using assms by (simp add: run_close_idle)
next
  case True
  then have "0 < count_list (closing m) rid"
    using count_list_0_iff [of "closing m" rid] by simp
  then show ?thesis
    using assms True
    by (auto simp: room_inv_def run_close_pending count_list_remove1 split: option.splits)
qed

lemma serve_inv: "directory_inv m \<Longrightarrow> directory_inv (serve q m)"
  by (cases q)
    (simp_all add: directory_inv_def add_client_room_inv del_client_room_inv run_close_room_inv)

lemma run_inv: "directory_inv m \<Longrightarrow> directory_inv (fold serve reqs m)"
  by (induction reqs arbitrary: m) (simp_all add: serve_inv)

lemma room_manager_inv: "directory_inv room_manager"
  by (simp add: directory_inv_def room_inv_def room_manager_def)

lemma reachable_inv: "room_inv (fold serve reqs room_manager) rid"
  using run_inv [OF room_manager_inv] by (simp add: directory_inv_def)

text \<open>
  C2. The directory is a dict, so it holds at most one room for an id. In every state
  that joins, leaves and scheduled closes lead to from the empty directory, and for
  every room id, the upstream clients started are as many as the rooms constructed
  and one more than those stopped if the id is in the directory, as many otherwise;
  every client stopped has been closed or has its close scheduled. In such a state,
  taking the only subscriber out of a room stops its upstream client, schedules its
  close and takes the room out of the directory; the scheduled close then closes the
  client, once, in a later turn of the event loop (a new room for the id can be made
  before that). A join for an id that is not in the directory constructs one room and
  starts its client, before the subscriber is added and before anything is written to
  it; a join for an id that is in the directory adds the subscriber to the room there
  and constructs and starts nothing; the test messages of debug mode construct,
  start, stop and close nothing. A leave for an id that is not in the directory
  changes nothing.
\<close>

theorem one_room_per_id:
  "(m = fold serve reqs room_manager \<longrightarrow>
      count_list (trace m) (Created rid) = count_list (trace m) (Started rid)
      \<and> count_list (trace m) (Started rid) =
          count_list (trace m) (Stopped rid) + (if rooms m rid = None then 0 else 1)
      \<and> count_list (trace m) (Stopped rid) =
          count_list (trace m) (Closed rid) + count_list (closing m) rid
      \<and> (rooms m rid = Some r \<and> clients r = [c] \<longrightarrow>
           del_client rid c m =
             (None, m\<lparr>rooms := (rooms m)(rid := None),
                      trace := trace m @ [Stopped rid],
                      closing := closing m @ [rid]\<rparr>)))
   \<and> (rid \<in> set (closing m) \<longrightarrow>
        run_close rid m =
          m\<lparr>closing := remove1 rid (closing m), trace := trace m @ [Closed rid]\<rparr>)
   \<and> (rid \<notin> set (closing m) \<longrightarrow> run_close rid m = m)
   \<and> (rooms m rid = None \<longrightarrow>
        add_client shut debug now rid c m =
          (if debug
           then fst (send_test_message shut
                  \<lparr>room.room_id = rid, room_owner_uid = None, is_running = True, clients = [c]\<rparr>
                  now [])
           else None,
           \<lparr>rooms = (rooms m)(rid \<mapsto>
              \<lparr>room.room_id = rid, room_owner_uid = None, is_running = True, clients = [c]\<rparr>),
            trace = trace m @ [Created rid, Started rid] @
              (if debug
               then snd (send_test_message shut
                      \<lparr>room.room_id = rid, room_owner_uid = None, is_running = True, clients = [c]\<rparr>
                      now [])
               else []),
            closing = closing m\<rparr>))
   \<and> (rooms m rid = Some r \<longrightarrow>
        add_client shut debug now rid c m =
          (if debug then fst (send_test_message shut (r\<lparr>clients := clients r @ [c]\<rparr>) now [])
           else None,
           \<lparr>rooms = (rooms m)(rid \<mapsto> r\<lparr>clients := clients r @ [c]\<rparr>),
            trace = trace m @
              (if debug then snd (send_test_message shut (r\<lparr>clients := clients r @ [c]\<rparr>) now [])
               else []),
            closing = closing m\<rparr>))
   \<and> (lifecycle e \<longrightarrow> count_list (snd (send_test_message shut r now [])) e = 0)
   \<and> (rooms m rid = Some r \<and> clients r = [c] \<longrightarrow>
        del_client rid c m =
          (case stop_and_close (r\<lparr>clients := []\<rparr>) (trace m) (closing m) of
             (tr, pending) \<Rightarrow>
               (None, m\<lparr>rooms := (rooms m)(rid := None), trace := tr, closing := pending\<rparr>)))
   \<and> (rooms m rid = None \<longrightarrow> del_client rid c m = (None, m))"
proof -
  have run: "count_list (trace m) (Created rid) = count_list (trace m) (Started rid)
      \<and> count_list (trace m) (Started rid) =
          count_list (trace m) (Stopped rid) + (if rooms m rid = None then 0 else 1)
      \<and> count_list (trace m) (Stopped rid) =
          count_list (trace m) (Closed rid) + count_list (closing m) rid
      \<and> (rooms m rid = Some r \<and> clients r = [c] \<longrightarrow>
           del_client rid c m =
             (None, m\<lparr>rooms := (rooms m)(rid := None),
                      trace := trace m @ [Stopped rid],
                      closing := closing m @ [rid]\<rparr>))"
    if "m = fold serve reqs room_manager"
  proof -
    have inv: "room_inv m rid"
      unfolding that by (rule reachable_inv)
    then have counts: "count_list (trace m) (Created rid) = count_list (trace m) (Started rid)"
      "count_list (trace m) (Started rid) =
          count_list (trace m) (Stopped rid) + (if rooms m rid = None then 0 else 1)"
      "count_list (trace m) (Stopped rid) =
          count_list (trace m) (Closed rid) + count_list (closing m) rid"
      by (auto simp: room_inv_def split: option.splits)
    have "del_client rid c m =
             (None, m\<lparr>rooms := (rooms m)(rid := None),
                      trace := trace m @ [Stopped rid],
                      closing := closing m @ [rid]\<rparr>)"
      if "rooms m rid = Some r" and "clients r = [c]"
    proof -
      have "is_running r" and "room.room_id r = rid"
        using inv that(1) by (simp_all add: room_inv_def)
      then show ?thesis
        by (simp add: del_client_last [OF that] stop_and_close_def)
    qed
    with counts show ?thesis by (intro conjI impI) simp_all
  qed
  have reached: "m = fold serve reqs room_manager \<longrightarrow>
      count_list (trace m) (Created rid) = count_list (trace m) (Started rid)
      \<and> count_list (trace m) (Started rid) =
          count_list (trace m) (Stopped rid) + (if rooms m rid = None then 0 else 1)
      \<and> count_list (trace m) (Stopped rid) =
          count_list (trace m) (Closed rid) + count_list (closing m) rid
      \<and> (rooms m rid = Some r \<and> clients r = [c] \<longrightarrow>
           del_client rid c m =
             (None, m\<lparr>rooms := (rooms m)(rid := None),
                      trace := trace m @ [Stopped rid],
                      closing := closing m @ [rid]\<rparr>))"
    by (rule impI) (rule run)
  have pending: "rid \<in> set (closing m) \<longrightarrow>
        run_close rid m =
          m\<lparr>closing := remove1 rid (closing m), trace := trace m @ [Closed rid]\<rparr>"
    and idle: "rid \<notin> set (closing m) \<longrightarrow> run_close rid m = m"
    by (simp_all add: run_close_def)
  have new: "rooms m rid = None \<longrightarrow>
        add_client shut debug now rid c m =
          (if debug
           then fst (send_test_message shut
                  \<lparr>room.room_id = rid, room_owner_uid = None, is_running = True, clients = [c]\<rparr>
                  now [])
           else None,
           \<lparr>rooms = (rooms m)(rid \<mapsto>
              \<lparr>room.room_id = rid, room_owner_uid = None, is_running = True, clients = [c]\<rparr>),
            trace = trace m @ [Created rid, Started rid] @
              (if debug
               then snd (send_test_message shut
                      \<lparr>room.room_id = rid, room_owner_uid = None, is_running = True, clients = [c]\<rparr>
                      now [])
               else []),
            closing = closing m\<rparr>)"
    by (rule impI) (rule add_client_new)
  have known: "rooms m rid = Some r \<longrightarrow>
        add_client shut debug now rid c m =
          (if debug then fst (send_test_message shut (r\<lparr>clients := clients r @ [c]\<rparr>) now [])
           else None,
           \<lparr>rooms = (rooms m)(rid \<mapsto> r\<lparr>clients := clients r @ [c]\<rparr>),
            trace = trace m @
              (if debug then snd (send_test_message shut (r\<lparr>clients := clients r @ [c]\<rparr>) now [])
               else []),
            closing = closing m\<rparr>)"
    by (rule impI) (rule add_client_known)
  have quiet: "lifecycle e \<longrightarrow> count_list (snd (send_test_message shut r now [])) e = 0"
    by (rule impI) (rule count_test_messages)
  have last: "rooms m rid = Some r \<and> clients r = [c] \<longrightarrow>
        del_client rid c m =
          (case stop_and_close (r\<lparr>clients := []\<rparr>) (trace m) (closing m) of
             (tr, pending) \<Rightarrow>
               (None, m\<lparr>rooms := (rooms m)(rid := None), trace := tr, closing := pending\<rparr>))"
    using del_client_last [of m rid r c] by blast
  have unknown: "rooms m rid = None \<longrightarrow> del_client rid c m = (None, m)"
    by (rule impI) (rule del_client_unknown)
  from reached pending idle new known quiet last unknown show ?thesis
    by (intro conjI)
qed

theorem one_room_per_id_witness:
  "one_subscriber = fold serve [Join {} False 0 7 1] room_manager
   \<and> count_list (trace one_subscriber) (Started 7) = 1
   \<and> count_list (trace one_subscriber) (Stopped 7) = 0
   \<and> rooms one_subscriber 7 =
       Some \<lparr>room.room_id = 7, room_owner_uid = None, is_running = True, clients = [1]\<rparr>
   \<and> clients \<lparr>room.room_id = 7, room_owner_uid = None, is_running = True, clients = [1]\<rparr> = [1]
   \<and> del_client 7 1 one_subscriber =
       (None, \<lparr>rooms = Map.empty, trace = [Created 7, Started 7, Stopped 7], closing = [7]\<rparr>)
   \<and> 7 \<in> set (closing
        \<lparr>rooms = Map.empty, trace = [Created 7, Started 7, Stopped 7], closing = [7]\<rparr>)
   \<and> run_close 7
        \<lparr>rooms = Map.empty, trace = [Created 7, Started 7, Stopped 7], closing = [7]\<rparr> =
       \<lparr>rooms = Map.empty, trace = [Created 7, Started 7, Stopped 7, Closed 7], closing = []\<rparr>
   \<and> 7 \<notin> set (closing one_subscriber)
   \<and> run_close 7 one_subscriber = one_subscriber
   \<and> rooms room_manager 7 = None
   \<and> add_client {} False 0 7 1 room_manager = (None, one_subscriber)
   \<and> add_client {} False 0 7 2 one_subscriber =
       (None,
        \<lparr>rooms = [7 \<mapsto> \<lparr>room.room_id = 7, room_owner_uid = None, is_running = True,
                          clients = [1, 2]\<rparr>],
         trace = [Created 7, Started 7], closing = []\<rparr>)
   \<and> lifecycle (Started 7)
   \<and> count_list (snd (send_test_message {}
        \<lparr>room.room_id = 7, room_owner_uid = None, is_running = True, clients = [1]\<rparr> 0 []))
        (Started 7) = 0
   \<and> rooms one_subscriber 8 = None
   \<and> del_client 8 1 one_subscriber = (None, one_subscriber)"
proof -
  let ?r = "\<lparr>room.room_id = 7, room_owner_uid = None, is_running = True, clients = [1]\<rparr>"
  let ?left = "\<lparr>rooms = Map.empty, trace = [Created 7, Started 7, Stopped 7], closing = [7]\<rparr>"
  have run: "one_subscriber = fold serve [Join {} False 0 7 1] room_manager"
    by (simp add: one_subscriber_def room_manager_def add_client_def Room_def start_def)
  have r: "rooms one_subscriber 7 = Some ?r" and cs: "clients ?r = [1]"
    and none: "rooms room_manager 7 = None" and none8: "rooms one_subscriber 8 = None"
    and life: "lifecycle (Started 7)"
    and pending: "7 \<in> set (closing ?left)" and idle: "7 \<notin> set (closing one_subscriber)"
    by (simp_all add: one_subscriber_def room_manager_def)
  have counts: "count_list (trace one_subscriber) (Started 7) = 1"
    "count_list (trace one_subscriber) (Stopped 7) = 0"
    by (simp_all add: one_subscriber_def)
  have "del_client 7 1 one_subscriber =
          (None, one_subscriber\<lparr>rooms := (rooms one_subscriber)(7 := None),
                   trace := trace one_subscriber @ [Stopped 7],
                   closing := closing one_subscriber @ [7]\<rparr>)"
    using run r cs
      one_room_per_id [where m = one_subscriber and reqs = "[Join {} False 0 7 1]" and rid = 7
        and r = ?r and c = 1]
    by blast
  then have del: "del_client 7 1 one_subscriber = (None, ?left)"
    by (simp add: one_subscriber_def)
  have "run_close 7 ?left = ?left\<lparr>closing := remove1 7 (closing ?left),
                                   trace := trace ?left @ [Closed 7]\<rparr>"
    using pending one_room_per_id [where m = ?left and rid = 7]
    by blast
  then have closed: "run_close 7 ?left =
       \<lparr>rooms = Map.empty, trace = [Created 7, Started 7, Stopped 7, Closed 7], closing = []\<rparr>"
    by simp
  have unscheduled: "run_close 7 one_subscriber = one_subscriber"
    using idle one_room_per_id [where m = one_subscriber and rid = 7]
    by blast
  have "add_client {} False 0 7 1 room_manager =
          (if False then fst (send_test_message {} ?r 0 []) else None,
           \<lparr>rooms = (rooms room_manager)(7 \<mapsto> ?r),
            trace = trace room_manager @ [Created 7, Started 7] @
              (if False then snd (send_test_message {} ?r 0 []) else []),
            closing = closing room_manager\<rparr>)"
    using none
      one_room_per_id [where m = room_manager and rid = 7 and c = 1 and debug = False
        and now = 0 and shut = "{}"]
    by blast
  then have add1: "add_client {} False 0 7 1 room_manager = (None, one_subscriber)"
    by (simp add: one_subscriber_def room_manager_def)
  have "add_client {} False 0 7 2 one_subscriber =
          (if False then fst (send_test_message {} (?r\<lparr>clients := clients ?r @ [2]\<rparr>) 0 [])
           else None,
           \<lparr>rooms = (rooms one_subscriber)(7 \<mapsto> ?r\<lparr>clients := clients ?r @ [2]\<rparr>),
            trace = trace one_subscriber @
              (if False then snd (send_test_message {} (?r\<lparr>clients := clients ?r @ [2]\<rparr>) 0 [])
               else []),
            closing = closing one_subscriber\<rparr>)"
    using r
      one_room_per_id [where m = one_subscriber and rid = 7 and r = ?r and c = 2
        and debug = False and now = 0 and shut = "{}"]
    by blast
  then have add2: "add_client {} False 0 7 2 one_subscriber =
       (None,
        \<lparr>rooms = [7 \<mapsto> \<lparr>room.room_id = 7, room_owner_uid = None, is_running = True,
                          clients = [1, 2]\<rparr>],
         trace = [Created 7, Started 7], closing = []\<rparr>)"
    by (simp add: one_subscriber_def)
  have quiet: "count_list (snd (send_test_message {} ?r 0 [])) (Started 7) = 0"
    using life one_room_per_id [where r = ?r and now = 0 and e = "Started 7" and shut = "{}"]
    by blast
  have del8: "del_client 8 1 one_subscriber = (None, one_subscriber)"
    using none8 one_room_per_id [where m = one_subscriber and rid = 8 and c = 1]
    by blast
  from run counts r cs del pending closed idle unscheduled none add1 add2 life quiet none8 del8
  show ?thesis by (intro conjI)
qed

section \<open>Messages that are not a join\<close>




end
